theory Spec2Isabelle
  imports Main "HOL-Library.Sublist" "HOL-Library.State_Monad"
begin

section \<open>Python strings\<close>

text \<open>
  A Python \<open>str\<close> is a sequence of Unicode code points; it is modelled as a list of
  natural numbers, one per code point, so that \<open>len\<close> is \<open>length\<close> and the
  \<open>\uXXXX\<close> escapes of JSON have a value.  \<open>py ''abc''\<close> is the \<open>str\<close> literal
  \<open>'abc'\<close>.
\<close>

type_synonym pystr = "nat list"

abbreviation (input) py :: "string \<Rightarrow> pystr" where
  "py s \<equiv> map of_char s"

text \<open>
  The Unicode character database of the interpreter is not part of the repository.  The
  three tables the code consults through \<open>\w\<close>, \<open>\d\<close> and \<open>str.lower\<close> are a parameter;
  \<open>ascii_db\<close> is their restriction to ASCII, used wherever a concrete text is evaluated.
  White space (\<open>\s\<close>, \<open>str.strip\<close>) is a short fixed list and is written out below.
\<close>

record unicode_db =
  isalnum :: "nat \<Rightarrow> bool"
  isdecimal :: "nat \<Rightarrow> bool"
  str_lower :: "pystr \<Rightarrow> pystr"

definition ascii_db :: unicode_db where
  "ascii_db =
     \<lparr> isalnum = (\<lambda>c. (48 \<le> c \<and> c \<le> 57) \<or> (65 \<le> c \<and> c \<le> 90) \<or> (97 \<le> c \<and> c \<le> 122)),
       isdecimal = (\<lambda>c. 48 \<le> c \<and> c \<le> 57),
       str_lower = map (\<lambda>c. if 65 \<le> c \<and> c \<le> 90 then c + 32 else c) \<rparr>"

text \<open>\<open>s.startswith(p)\<close>\<close>

fun startswith :: "pystr \<Rightarrow> pystr \<Rightarrow> bool" where
  "startswith s [] = True"
| "startswith [] (p # ps) = False"
| "startswith (c # cs) (p # ps) = (c = p \<and> startswith cs ps)"

text \<open>\<open>sub in s\<close> for two strings\<close>

fun contains :: "pystr \<Rightarrow> pystr \<Rightarrow> bool" where
  "contains sub [] = (sub = [])"
| "contains sub (c # cs) = (startswith (c # cs) sub \<or> contains sub cs)"

text \<open>\<open>s.find(sub)\<close>: the least index of an occurrence, \<open>None\<close> for Python's \<open>-1\<close>.\<close>

fun str_find :: "pystr \<Rightarrow> pystr \<Rightarrow> nat option" where
  "str_find [] sub = (if sub = [] then Some 0 else None)"
| "str_find (c # cs) sub =
     (if startswith (c # cs) sub then Some 0 else map_option Suc (str_find cs sub))"

text \<open>
  White space as \<open>str.isspace\<close>, \<open>str.strip\<close> and the pattern \<open>\s\<close> see it.
\<close>

definition is_space :: "nat \<Rightarrow> bool" where
  "is_space c =
     ((9 \<le> c \<and> c \<le> 13) \<or> (28 \<le> c \<and> c \<le> 32) \<or> c = 133 \<or> c = 160 \<or> c = 5760 \<or>
      (8192 \<le> c \<and> c \<le> 8202) \<or> c = 8232 \<or> c = 8233 \<or> c = 8239 \<or> c = 8287 \<or> c = 12288)"

definition strip :: "pystr \<Rightarrow> pystr" where
  "strip s = rev (dropWhile is_space (rev (dropWhile is_space s)))"

lemma str_find_bound: "str_find s sub = Some i \<Longrightarrow> i + length sub \<le> length s"
proof (induction s arbitrary: i)
  case Nil
  then show ?case by (simp split: if_splits)
next
  case (Cons c cs)
  show ?case
  proof (cases "startswith (c # cs) sub")
    case True
    have "startswith t p \<Longrightarrow> length p \<le> length t" for t p
      by (induction t p rule: startswith.induct) auto
    with True Cons.prems show ?thesis by fastforce
  next
    case False
    with Cons show ?thesis by auto
  qed
qed

text \<open>
  \<open>s.split(sep)\<close> and \<open>s.replace(old, new)\<close>.  The code calls them with the constant,
  non-empty separators \<open>'SQLSTATE'\<close>, \<open>'\n'\<close> and \<open>'[TABLE_OR_VIEW_NOT_FOUND]'\<close> only; the
  empty separator, which Python treats differently, leaves the string as it is here.
\<close>

function split :: "pystr \<Rightarrow> pystr \<Rightarrow> pystr list" where
  "split s sep =
     (case str_find s sep of
        None \<Rightarrow> [s]
      | Some i \<Rightarrow> if sep = [] then [s] else take i s # split (drop (i + length sep) s) sep)"
  by pat_completeness auto
termination
proof (relation "measure (\<lambda>(s, sep). length s)")
  fix s sep :: pystr and i
  assume "str_find s sep = Some i" and "sep \<noteq> []"
  then have "i + length sep \<le> length s" and "0 < length sep"
    by (auto dest: str_find_bound)
  then have "length s - (i + length sep) < length s"
    by linarith
  then show "((drop (i + length sep) s, sep), (s, sep)) \<in> measure (\<lambda>(s, sep). length s)"
    by simp
qed simp

declare split.simps [simp del]

function replace :: "pystr \<Rightarrow> pystr \<Rightarrow> pystr \<Rightarrow> pystr" where
  "replace s old new =
     (case str_find s old of
        None \<Rightarrow> s
      | Some i \<Rightarrow>
          if old = [] then s
          else take i s @ new @ replace (drop (i + length old) s) old new)"
  by pat_completeness auto
termination
proof (relation "measure (\<lambda>(s, old, new). length s)")
  fix s old new :: pystr and i
  assume "str_find s old = Some i" and "old \<noteq> []"
  then have "i + length old \<le> length s" and "0 < length old"
    by (auto dest: str_find_bound)
  then have "length s - (i + length old) < length s"
    by linarith
  then show "((drop (i + length old) s, old, new), (s, old, new))
      \<in> measure (\<lambda>(s, old, new). length s)"
    by simp
qed simp

declare replace.simps [simp del]

section \<open>Python values\<close>

text \<open>
  The values \<open>json.loads\<close> produces and the code passes around.  A \<open>dict\<close> is an
  association list with distinct keys in insertion order.  A \<open>float\<close> is kept as the text
  that was handed to \<open>float()\<close>: the literal determines the number, equal literals give
  equal numbers, and the code never compares or computes with floats.
\<close>

datatype pyval =
    PNone
  | PBool bool
  | PInt int
  | PFloat pystr
  | PStr pystr
  | PList "pyval list"
  | PDict "(pystr \<times> pyval) list"

type_synonym pydict = "(pystr \<times> pyval) list"

text \<open>The exceptions the code can meet on a value of the wrong type.\<close>

datatype exc = TypeError | AttributeError | KeyError | IndexError

definition bind_exc :: "exc + 'a \<Rightarrow> ('a \<Rightarrow> exc + 'b) \<Rightarrow> exc + 'b" where
  "bind_exc m f = (case m of Inl e \<Rightarrow> Inl e | Inr x \<Rightarrow> f x)"

text \<open>\<open>d[k] = v\<close>: an existing key keeps its place.\<close>

fun dict_set :: "pydict \<Rightarrow> pystr \<Rightarrow> pyval \<Rightarrow> pydict" where
  "dict_set [] k v = [(k, v)]"
| "dict_set ((k', v') # d) k v =
     (if k' = k then (k', v) # d else (k', v') # dict_set d k v)"

text \<open>\<open>k in d\<close>, \<open>d.get(k)\<close> (\<open>None\<close> for a missing key) and \<open>d.get(k, default)\<close>.\<close>

definition dict_has :: "pydict \<Rightarrow> pystr \<Rightarrow> bool" where
  "dict_has d k = (map_of d k \<noteq> None)"

definition dict_get :: "pydict \<Rightarrow> pystr \<Rightarrow> pyval \<Rightarrow> pyval" where
  "dict_get d k dflt = (case map_of d k of None \<Rightarrow> dflt | Some v \<Rightarrow> v)"

text \<open>
  The number a float literal denotes is zero when all its digits are, or when it is so
  small that the nearest double is zero: at most \<open>2 ^ - 1075\<close>, half the least
  subnormal.  \<open>nan\<close> and the infinities are not zero.
\<close>

definition is_digit :: "nat \<Rightarrow> bool" where
  "is_digit c = (48 \<le> c \<and> c \<le> 57)"

definition int_of_digits :: "pystr \<Rightarrow> nat" where
  "int_of_digits ds = foldl (\<lambda>n c. 10 * n + (c - 48)) 0 ds"

definition float_is_zero :: "pystr \<Rightarrow> bool" where
  "float_is_zero text =
     (let body = (if startswith text [45] then tl text else text);
          mantissa = takeWhile (\<lambda>c. c \<noteq> 101 \<and> c \<noteq> 69) body;
          exponent = drop (Suc (length mantissa)) body;
          whole = takeWhile is_digit mantissa;
          frac = drop (Suc (length whole)) mantissa;
          m = int_of_digits (whole @ frac);
          e = (if startswith exponent [45] then - int (int_of_digits (tl exponent))
               else if startswith exponent [43] then int (int_of_digits (tl exponent))
               else int (int_of_digits exponent)) - int (length frac)
      in whole \<noteq> [] \<and> (m = 0 \<or> (e < 0 \<and> m * 2 ^ 1075 \<le> 10 ^ nat (- e))))"

text \<open>Truth value of an object, as \<open>if x\<close> and \<open>not x\<close> take it.\<close>

fun truthy :: "pyval \<Rightarrow> bool" where
  "truthy PNone = False"
| "truthy (PBool b) = b"
| "truthy (PInt i) = (i \<noteq> 0)"
| "truthy (PFloat text) = (\<not> float_is_zero text)"
| "truthy (PStr s) = (s \<noteq> [])"
| "truthy (PList xs) = (xs \<noteq> [])"
| "truthy (PDict d) = (d \<noteq> [])"

text \<open>
  \<open>k in x\<close> for a string \<open>k\<close>: a key of a dict, an element of a list, a substring of a
  string, and a \<open>TypeError\<close> on anything else.
\<close>

fun py_in :: "pystr \<Rightarrow> pyval \<Rightarrow> exc + bool" where
  "py_in k (PDict d) = Inr (dict_has d k)"
| "py_in k (PList xs) = Inr (PStr k \<in> set xs)"
| "py_in k (PStr s) = Inr (contains k s)"
| "py_in k _ = Inl TypeError"

text \<open>\<open>x[0]\<close>; the keys of a dict made by \<open>json.loads\<close> are strings, never \<open>0\<close>.\<close>

fun py_first :: "pyval \<Rightarrow> exc + pyval" where
  "py_first (PList []) = Inl IndexError"
| "py_first (PList (x # xs)) = Inr x"
| "py_first (PStr []) = Inl IndexError"
| "py_first (PStr (c # cs)) = Inr (PStr [c])"
| "py_first (PDict d) = Inl KeyError"
| "py_first _ = Inl TypeError"

text \<open>\<open>len(x)\<close>\<close>

fun py_len :: "pyval \<Rightarrow> exc + nat" where
  "py_len (PList xs) = Inr (length xs)"
| "py_len (PStr s) = Inr (length s)"
| "py_len (PDict d) = Inr (length d)"
| "py_len _ = Inl TypeError"

text \<open>\<open>x.keys()\<close>/\<open>x.items()\<close>, \<open>x.split(sep)\<close> and \<open>x.strip()\<close>: methods of one type only.\<close>

fun py_items :: "pyval \<Rightarrow> exc + pydict" where
  "py_items (PDict d) = Inr d"
| "py_items _ = Inl AttributeError"

fun py_split :: "pyval \<Rightarrow> pystr \<Rightarrow> exc + pystr list" where
  "py_split (PStr s) sep = Inr (split s sep)"
| "py_split _ sep = Inl AttributeError"

fun py_strip :: "pyval \<Rightarrow> exc + pystr" where
  "py_strip (PStr s) = Inr (strip s)"
| "py_strip _ = Inl AttributeError"

text \<open>\<open>isinstance(v, (int, float))\<close>; \<open>bool\<close> is a subclass of \<open>int\<close>.\<close>

fun is_number :: "pyval \<Rightarrow> bool" where
  "is_number (PBool b) = True"
| "is_number (PInt i) = True"
| "is_number (PFloat text) = True"
| "is_number _ = False"

section \<open>json.loads\<close>

text \<open>
  The decoder of the standard library, with its defaults: white space is blank, tab,
  line feed and carriage return; strings are strict (no control characters); \<open>NaN\<close>,
  \<open>Infinity\<close> and \<open>-Infinity\<close> are accepted; a repeated key keeps its last value.
  Every failure is a \<open>JSONDecodeError\<close>, here \<open>None\<close>.  The interpreter's limits on nesting
  depth and on the number of digits of an integer are not modelled.
\<close>

definition json_ws :: "nat \<Rightarrow> bool" where
  "json_ws c = (c = 32 \<or> c = 9 \<or> c = 10 \<or> c = 13)"

definition skip_ws :: "pystr \<Rightarrow> pystr" where
  "skip_ws s = dropWhile json_ws s"

definition hexval :: "nat \<Rightarrow> nat option" where
  "hexval c =
     (if 48 \<le> c \<and> c \<le> 57 then Some (c - 48)
      else if 97 \<le> c \<and> c \<le> 102 then Some (c - 87)
      else if 65 \<le> c \<and> c \<le> 70 then Some (c - 55)
      else None)"

fun hex4 :: "pystr \<Rightarrow> nat option" where
  "hex4 (a # b # c # d # _) =
     (case (hexval a, hexval b, hexval c, hexval d) of
        (Some x, Some y, Some z, Some w) \<Rightarrow> Some (((x * 16 + y) * 16 + z) * 16 + w)
      | _ \<Rightarrow> None)"
| "hex4 _ = None"

text \<open>
  What follows a backslash inside a string: the code point it stands for and the number
  of characters it takes.  A high surrogate followed by an escaped low surrogate is one
  code point.
\<close>

definition decode_escape :: "pystr \<Rightarrow> (nat \<times> nat) option" where
  "decode_escape s =
     (case s of
        [] \<Rightarrow> None
      | e # es \<Rightarrow>
          if e = 117 then
            (case hex4 es of
               None \<Rightarrow> None
             | Some u1 \<Rightarrow>
                 if 0xD800 \<le> u1 \<and> u1 \<le> 0xDBFF \<and> startswith (drop 4 es) [92, 117] then
                   (case hex4 (drop 6 es) of
                      None \<Rightarrow> None
                    | Some u2 \<Rightarrow>
                        if 0xDC00 \<le> u2 \<and> u2 \<le> 0xDFFF
                        then Some (0x10000 + (u1 - 0xD800) * 0x400 + (u2 - 0xDC00), 11)
                        else Some (u1, 5))
                 else Some (u1, 5))
          else if e = 34 \<or> e = 92 \<or> e = 47 then Some (e, 1)
          else if e = 98 then Some (8, 1)
          else if e = 102 then Some (12, 1)
          else if e = 110 then Some (10, 1)
          else if e = 114 then Some (13, 1)
          else if e = 116 then Some (9, 1)
          else None)"

text \<open>The string after its opening quote: its content and the text after the closing quote.\<close>

function scanstring :: "pystr \<Rightarrow> (pystr \<times> pystr) option" where
  "scanstring [] = None"
| "scanstring (c # cs) =
     (if c = 34 then Some ([], cs)
      else if c = 92 then
        (case decode_escape cs of
           None \<Rightarrow> None
         | Some (u, n) \<Rightarrow>
             (case scanstring (drop n cs) of
                None \<Rightarrow> None
              | Some (chunk, rest) \<Rightarrow> Some (u # chunk, rest)))
      else if c < 32 then None
      else
        (case scanstring cs of
           None \<Rightarrow> None
         | Some (chunk, rest) \<Rightarrow> Some (c # chunk, rest)))"
  by pat_completeness auto
termination
  by (relation "measure length") auto

text \<open>
  A number: \<open>-?(0|[1-9][0-9]*)(\.[0-9]+)?([eE][-+]?[0-9]+)?\<close>, an \<open>int\<close> without fraction
  and exponent and a \<open>float\<close> otherwise.
\<close>

definition match_number :: "pystr \<Rightarrow> (pyval \<times> pystr) option" where
  "match_number s =
     (let neg = startswith s [45];
          s1 = (if neg then tl s else s);
          integer = (if startswith s1 [48] then [48] else takeWhile is_digit s1);
          s2 = drop (length integer) s1;
          frac = (case s2 of
                    d # f # _ \<Rightarrow> if d = 46 \<and> is_digit f then d # takeWhile is_digit (tl s2) else []
                  | _ \<Rightarrow> []);
          s3 = drop (length frac) s2;
          exp = (case s3 of
                   [] \<Rightarrow> []
                 | e # s4 \<Rightarrow>
                     if e = 101 \<or> e = 69 then
                       (let sign = (case s4 of
                                      [] \<Rightarrow> []
                                    | g # _ \<Rightarrow> if g = 45 \<or> g = 43 then [g] else []);
                            ds = takeWhile is_digit (drop (length sign) s4)
                        in if ds = [] then [] else e # sign @ ds)
                     else []);
          s5 = drop (length exp) s3
      in if integer = [] then None
         else if frac = [] \<and> exp = [] then
           Some (PInt (if neg then - int (int_of_digits integer)
                       else int (int_of_digits integer)), s5)
         else Some (PFloat ((if neg then [45] else []) @ integer @ frac @ exp), s5))"

lemma length_skip_ws: "length (skip_ws s) \<le> length s"
  by (simp add: skip_ws_def length_dropWhile_le)

lemma skip_ws_Cons_length: "skip_ws s = d # r \<Longrightarrow> length r < length s"
  using length_skip_ws [of s] by simp

text \<open>
  One value at the head of the text, with the text after it; the loops over the
  elements of an array and the members of an object, each entered at its first item.
  The tests on lengths make the recursion visibly terminate; \<open>scan_once_shorter\<close> below
  shows that they never fail.
\<close>

function scan_once :: "pystr \<Rightarrow> (pyval \<times> pystr) option"
  and parse_array :: "pyval list \<Rightarrow> pystr \<Rightarrow> (pyval \<times> pystr) option"
  and parse_object :: "pydict \<Rightarrow> pystr \<Rightarrow> (pyval \<times> pystr) option"
where
  "scan_once s =
     (case s of
        [] \<Rightarrow> None
      | c # cs \<Rightarrow>
          if c = 34 then
            (case scanstring cs of None \<Rightarrow> None | Some (str, rest) \<Rightarrow> Some (PStr str, rest))
          else if c = 123 then
            (case skip_ws cs of
               [] \<Rightarrow> None
             | d # rest \<Rightarrow> if d = 125 then Some (PDict [], rest) else parse_object [] (skip_ws cs))
          else if c = 91 then
            (case skip_ws cs of
               [] \<Rightarrow> None
             | d # rest \<Rightarrow> if d = 93 then Some (PList [], rest) else parse_array [] (skip_ws cs))
          else if startswith s (py ''null'') then Some (PNone, drop 4 s)
          else if startswith s (py ''true'') then Some (PBool True, drop 4 s)
          else if startswith s (py ''false'') then Some (PBool False, drop 5 s)
          else if startswith s (py ''NaN'') then Some (PFloat (py ''nan''), drop 3 s)
          else if startswith s (py ''Infinity'') then Some (PFloat (py ''inf''), drop 8 s)
          else if startswith s (py ''-Infinity'') then Some (PFloat (py ''-inf''), drop 9 s)
          else match_number s)"
| "parse_array acc s =
     (case scan_once s of
        None \<Rightarrow> None
      | Some (v, r) \<Rightarrow>
          (case skip_ws r of
             [] \<Rightarrow> None
           | d # rest \<Rightarrow>
               if d = 93 then Some (PList (acc @ [v]), rest)
               else if d = 44 \<and> length rest < length s then parse_array (acc @ [v]) (skip_ws rest)
               else None))"
| "parse_object acc s =
     (case s of
        [] \<Rightarrow> None
      | q # ks \<Rightarrow>
          if q \<noteq> 34 then None
          else
            (case scanstring ks of
               None \<Rightarrow> None
             | Some (key, r) \<Rightarrow>
                 (case skip_ws r of
                    [] \<Rightarrow> None
                  | colon # r1 \<Rightarrow>
                      if colon = 58 \<and> length r1 < length s then
                        (case scan_once (skip_ws r1) of
                           None \<Rightarrow> None
                         | Some (v, r2) \<Rightarrow>
                             (case skip_ws r2 of
                                [] \<Rightarrow> None
                              | d # rest \<Rightarrow>
                                  if d = 125 then Some (PDict (dict_set acc key v), rest)
                                  else if d = 44 \<and> length rest < length s
                                  then parse_object (dict_set acc key v) (skip_ws rest)
                                  else None))
                      else None)))"
  by pat_completeness auto

termination
  apply (relation "measure (\<lambda>x. case x of Inl s \<Rightarrow> 2 * length s
                                 | Inr (Inl (acc, s)) \<Rightarrow> 2 * length s + 1
                                 | Inr (Inr (acc, s)) \<Rightarrow> 2 * length s + 1)")
       apply (auto dest!: skip_ws_Cons_length)
  subgoal for s v r rest using length_skip_ws [of rest] by linarith
  subgoal for ks key r r1 using length_skip_ws [of r1] by linarith
  subgoal for ks key r r1 v r2 rest using length_skip_ws [of rest] by linarith
  done

declare scan_once.simps [simp del] parse_array.simps [simp del] parse_object.simps [simp del]

text \<open>\<open>json.loads(s)\<close>: one value, white space around it, and nothing else.\<close>

definition json_loads :: "pystr \<Rightarrow> pyval option" where
  "json_loads s =
     (case scan_once (skip_ws s) of
        None \<Rightarrow> None
      | Some (v, rest) \<Rightarrow> if skip_ws rest = [] then Some v else None)"

section \<open>Regular expressions (module re)\<close>

text \<open>
  The patterns of the parser use literals, character classes, sequence, the greedy
  \<open>*\<close>, \<open>+\<close> and \<open>?\<close>, and \<open>$\<close>.  A class is a list of items, each a character or one of
  \<open>\s\<close>, \<open>\w\<close>, \<open>\d\<close>; \<open>Not_In\<close> is a class that begins with \<open>^\<close>.
\<close>

datatype item = Ch nat | Space | Word | Digit

datatype regex =
    Lit pystr
  | In "item list"
  | Not_In "item list"
  | Seq regex regex
  | Star regex
  | Opt regex
  | Dollar

fun item_holds :: "unicode_db \<Rightarrow> item \<Rightarrow> nat \<Rightarrow> bool" where
  "item_holds U (Ch x) c = (c = x)"
| "item_holds U Space c = is_space c"
| "item_holds U Word c = (isalnum U c \<or> c = 95)"
| "item_holds U Digit c = isdecimal U c"

text \<open>
  \<open>ms U r s\<close> lists the texts that can remain after \<open>r\<close> has matched at the head of \<open>s\<close>,
  in the order in which the backtracking matcher tries them, so that its head is the
  match the matcher finds.  The body of every \<open>*\<close> in the patterns takes at least one
  character, which is all that \<open>Star\<close> iterates on.
\<close>

function ms :: "unicode_db \<Rightarrow> regex \<Rightarrow> pystr \<Rightarrow> pystr list" where
  "ms U (Lit p) s = (if startswith s p then [drop (length p) s] else [])"
| "ms U (In items) s =
     (case s of [] \<Rightarrow> [] | c # cs \<Rightarrow> if list_ex (\<lambda>i. item_holds U i c) items then [cs] else [])"
| "ms U (Not_In items) s =
     (case s of [] \<Rightarrow> [] | c # cs \<Rightarrow> if list_ex (\<lambda>i. item_holds U i c) items then [] else [cs])"
| "ms U (Seq a b) s = concat (map (ms U b) (ms U a s))"
| "ms U (Star a) s =
     concat (map (\<lambda>r. if length r < length s then ms U (Star a) r else []) (ms U a s)) @ [s]"
| "ms U (Opt a) s = ms U a s @ [s]"
| "ms U Dollar s = (if s = [] \<or> s = [10] then [s] else [])"
  by pat_completeness auto
termination
  by (relation "inv_image (less_than <*lex*> less_than) (\<lambda>(U, r, s). (size r, length s))") auto

definition Plus :: "regex \<Rightarrow> regex" where
  "Plus a = Seq a (Star a)"

fun seqs :: "regex list \<Rightarrow> regex" where
  "seqs [] = Lit []"
| "seqs [r] = r"
| "seqs (r # rs) = Seq r (seqs rs)"

text \<open>
  A pattern is cut at the parentheses of its groups into segments, each marked as
  captured or not.  \<open>match_segs\<close> lists the ways of matching at the head of the text, as
  the groups and the remaining text, again in the matcher's order.
\<close>

type_synonym pattern = "(bool \<times> regex) list"

fun match_segs :: "unicode_db \<Rightarrow> pattern \<Rightarrow> pystr \<Rightarrow> (pystr list \<times> pystr) list" where
  "match_segs U [] s = [([], s)]"
| "match_segs U ((captured, r) # segs) s =
     concat (map (\<lambda>s1. map (\<lambda>(groups, rest).
                            (if captured then take (length s - length s1) s # groups else groups,
                             rest))
                        (match_segs U segs s1))
                 (ms U r s))"

text \<open>
  \<open>re.search\<close>: the leftmost match, as the matched text, its groups and the text after
  the match.
\<close>

fun re_search :: "unicode_db \<Rightarrow> pattern \<Rightarrow> pystr \<Rightarrow> (pystr \<times> pystr list \<times> pystr) option" where
  "re_search U p [] =
     (case match_segs U p [] of [] \<Rightarrow> None | (groups, rest) # _ \<Rightarrow> Some ([], groups, rest))"
| "re_search U p (c # cs) =
     (case match_segs U p (c # cs) of
        [] \<Rightarrow> re_search U p cs
      | (groups, rest) # _ \<Rightarrow> Some (take (length (c # cs) - length rest) (c # cs), groups, rest))"

text \<open>
  \<open>re.findall\<close> and \<open>re.finditer\<close>: the successive matches, each sought after the end of
  the one before.  No pattern of the parser matches the empty text.
\<close>

function re_findall :: "unicode_db \<Rightarrow> pattern \<Rightarrow> pystr \<Rightarrow> (pystr \<times> pystr list) list" where
  "re_findall U p s =
     (case re_search U p s of
        None \<Rightarrow> []
      | Some (m, groups, rest) \<Rightarrow>
          (m, groups) # (if length rest < length s then re_findall U p rest else []))"
  by pat_completeness auto
termination
  by (relation "measure (\<lambda>(U, p, s). length s)") auto

declare re_findall.simps [simp del]

definition group1 :: "pystr list \<Rightarrow> pystr" where
  "group1 groups = (case groups of [] \<Rightarrow> [] | g # _ \<Rightarrow> g)"

section \<open>The tolerant response parser (robust\_json\_parser.py)\<close>

subsection \<open>The parser object\<close>

text \<open>
  The attributes \<open>__init__\<close> sets: the dict \<open>chart_patterns\<close>, a field for each key
  (\<open>chart_type_pattern\<close> for the key \<open>chart_type\<close>), and \<open>supported_chart_types\<close>.  The
  methods read them and assign none.
\<close>

record chart_patterns =
  status_success :: pattern
  chart_type_pattern :: pattern
  data_array_start :: pattern
  record_pattern :: pattern
  date_field :: pattern
  numeric_field :: pattern

record parser =
  chart_patterns :: chart_patterns
  supported_chart_types :: "pystr list"

definition spaces :: regex where
  "spaces = Star (In [Space])"

definition balanced_braces :: regex where
  "balanced_braces =
     seqs [Lit [123], Star (Not_In [Ch 123, Ch 125]),
           Star (seqs [Lit [123], Star (Not_In [Ch 123, Ch 125]), Lit [125],
                       Star (Not_In [Ch 123, Ch 125])]),
           Lit [125]]"

definition init :: parser where
  \<open>init =
     \<lparr> chart_patterns =
         \<lparr> status_success =
             [(False, seqs [Lit (py ''"status"''), spaces, Lit (py '':''), spaces,
                            Lit (py ''"success"'')])],
           chart_type_pattern =
             [(False, seqs [Lit (py ''"chart_type"''), spaces, Lit (py '':''), spaces, Lit [34]]),
              (True, Plus (Not_In [Ch 34])),
              (False, Lit [34])],
           data_array_start =
             [(False, seqs [Lit (py ''"data"''), spaces, Lit (py '':''), spaces, Lit (py ''['')])],
           record_pattern = [(False, balanced_braces)],
           date_field =
             [(False, seqs [Lit (py ''"Date"''), spaces, Lit (py '':''), spaces, Lit [34]]),
              (True, Plus (Not_In [Ch 34])),
              (False, Lit [34])],
           numeric_field =
             [(False, Lit [34]),
              (True, Plus (In [Word])),
              (False, seqs [Lit [34], spaces, Lit (py '':''), spaces]),
              (True, Seq (Plus (In [Digit])) (Opt (Seq (Lit (py ''.'')) (Plus (In [Digit])))))] \<rparr>,
       supported_chart_types = map py [''candlestick'', ''scatter'', ''line'', ''bar'', ''pie''] \<rparr>\<close>

text \<open>The two patterns that \<open>_clean_truncated_response\<close> writes out itself.\<close>

definition local_record_pattern :: pattern where
  "local_record_pattern = [(False, balanced_braces)]"

definition after_data_pattern :: pattern where
  "after_data_pattern =
     [(False, seqs [Lit (py '']''), spaces, Lit (py '',''), spaces]),
      (True, Seq (Lit [34]) (Plus (In [Word, Ch 34, Ch 58, Space, Ch 44]))),
      (False, seqs [spaces, Opt (Lit [125]), spaces, Dollar])]"

subsection \<open>\_clean\_truncated\_response\<close>

fun join :: "pystr \<Rightarrow> pystr list \<Rightarrow> pystr" where
  "join sep [] = []"
| "join sep [x] = x"
| "join sep (x # xs) = x @ sep @ join sep xs"

definition clean_truncated_response :: "unicode_db \<Rightarrow> pystr \<Rightarrow> pystr" where
  \<open>clean_truncated_response U response_text =
     (let cleaned_text = strip response_text in
      case str_find cleaned_text (py ''"data": ['') of
        None \<Rightarrow> cleaned_text
      | Some data_start \<Rightarrow>
          (let records_section = drop data_start cleaned_text;
               complete_records =
                 filter (\<lambda>record_text. json_loads record_text \<noteq> None)
                        (map fst (re_findall U local_record_pattern records_section))
           in if complete_records \<noteq> [] then
                (let before_data = take data_start cleaned_text;
                     records_json = join (py '', '') complete_records;
                     after_data =
                       (case re_search U after_data_pattern cleaned_text of
                          None \<Rightarrow> []
                        | Some (m, groups, rest) \<Rightarrow> py '', '' @ group1 groups)
                 in before_data @ py ''"data": ['' @ records_json @ py '']'' @ after_data
                      @ py ''}'')
              else cleaned_text))\<close>

subsection \<open>Error responses\<close>

definition error_indicators :: "pystr list" where
  \<open>error_indicators = map py
     [''"error":'', ''TABLE_OR_VIEW_NOT_FOUND'', ''SQLSTATE'', ''error'', ''ERROR'',
      ''Exception'', ''Failed'', ''cannot be found'']\<close>

definition is_error_response :: "pystr \<Rightarrow> bool" where
  "is_error_response response_text =
     list_ex (\<lambda>indicator. contains indicator response_text) error_indicators"

definition msg_tcs_not_found :: pystr where
  "msg_tcs_not_found = py (''TCS stock data not found in database. '' @
     ''Please check if the data exists for the requested time period.'')"

definition msg_table_not_found :: pystr where
  "msg_table_not_found = py ''Requested stock data table not found in database.''"

definition msg_source_not_found :: pystr where
  "msg_source_not_found = py (''The requested data source cannot be found. '' @
     ''Please verify the stock symbol and date range.'')"

definition msg_default :: pystr where
  "msg_default = py ''An error occurred while processing the request.''"

text \<open>
  The block under \<open>if 'SQLSTATE' in error_text\<close>: the message it returns, or \<open>None\<close> when
  control falls through to the statements after it.
\<close>

definition sqlstate_block :: "pyval \<Rightarrow> exc + pystr option" where
  "sqlstate_block error_text =
     bind_exc (py_split error_text (py ''SQLSTATE'')) (\<lambda>parts.
       case parts of
         [] \<Rightarrow> Inr None
       | part0 # _ \<Rightarrow>
           (let main_error = strip part0;
                main_error = strip (replace main_error (py ''[TABLE_OR_VIEW_NOT_FOUND]'') [])
            in Inr (if main_error \<noteq> [] then Some main_error else None)))"

text \<open>The statements from \<open>if 'cannot be found' in error_text\<close> to the end.\<close>

definition other_errors :: "pyval \<Rightarrow> exc + pystr" where
  "other_errors error_text =
     bind_exc (py_in (py ''cannot be found'') error_text) (\<lambda>not_found.
       if not_found then Inr msg_source_not_found
       else
         bind_exc (py_in (py ''Failed to'') error_text) (\<lambda>failed.
         bind_exc (if failed then Inr True else py_in (py ''Error:'') error_text) (\<lambda>first_line.
           if first_line then
             bind_exc (py_split error_text [10]) (\<lambda>lines.
               case lines of [] \<Rightarrow> Inl IndexError | line # _ \<Rightarrow> Inr line)
           else
             bind_exc (py_strip error_text) (\<lambda>clean_msg.
               (let clean_msg = (if length clean_msg > 200 then take 200 clean_msg @ py ''...''
                                 else clean_msg)
                in Inr (if clean_msg \<noteq> [] then clean_msg else msg_default))))))"

definition clean_error_message :: "pyval \<Rightarrow> exc + pystr" where
  "clean_error_message error_text =
     bind_exc (py_in (py ''TABLE_OR_VIEW_NOT_FOUND'') error_text) (\<lambda>table.
       if table then
         bind_exc (py_in (py ''TCS_stock'') error_text) (\<lambda>tcs.
           Inr (if tcs then msg_tcs_not_found else msg_table_not_found))
       else
         bind_exc (py_in (py ''SQLSTATE'') error_text) (\<lambda>sqlstate.
         bind_exc (if sqlstate then sqlstate_block error_text else Inr None) (\<lambda>returned.
           case returned of
             Some main_error \<Rightarrow> Inr main_error
           | None \<Rightarrow> other_errors error_text)))"

definition error_result :: "pystr \<Rightarrow> pystr \<Rightarrow> pydict" where
  "error_result message error_type =
     [(py ''status'', PStr (py ''error'')), (py ''error'', PStr message),
      (py ''error_type'', PStr error_type), (py ''chart_data'', PNone)]"

text \<open>
  What \<open>_extract_error_message\<close> returns once it has the text to clean; an exception
  from the cleaning is caught by its \<open>except Exception\<close>.
\<close>

definition cleaned_result :: "pyval \<Rightarrow> pystr \<Rightarrow> pydict" where
  "cleaned_result error_text error_type =
     (case clean_error_message error_text of
        Inl e \<Rightarrow> error_result (py ''Failed to parse error response'') (py ''parser'')
      | Inr clean_msg \<Rightarrow> error_result clean_msg error_type)"

definition extract_error_message :: "pystr \<Rightarrow> pydict" where
  "extract_error_message response_text =
     (if startswith (strip response_text) [123] then
        (case json_loads response_text of
           Some (PDict parsed) \<Rightarrow>
             if dict_has parsed (py ''error'')
             then cleaned_result (dict_get parsed (py ''error'') PNone) (py ''database'')
             else cleaned_result (PStr response_text) (py ''general'')
         | _ \<Rightarrow> cleaned_result (PStr response_text) (py ''general''))
      else cleaned_result (PStr response_text) (py ''general''))"

subsection \<open>Pattern-based extraction\<close>

text \<open>
  \<open>_extract_chart_metadata\<close> returns \<open>None\<close> or the dict \<open>{'chart_type': chart_type}\<close>;
  the model returns the chart type, the only entry.
\<close>

definition extract_chart_metadata :: "unicode_db \<Rightarrow> parser \<Rightarrow> pystr \<Rightarrow> pystr option" where
  "extract_chart_metadata U self text =
     (if re_search U (status_success (chart_patterns self)) text = None then None
      else
        (case re_search U (chart_type_pattern (chart_patterns self)) text of
           None \<Rightarrow> None
         | Some (m, groups, rest) \<Rightarrow>
             (let chart_type = group1 groups in
              if chart_type \<notin> set (supported_chart_types self) then None else Some chart_type)))"

definition get_required_fields :: "pystr \<Rightarrow> pystr list" where
  "get_required_fields chart_type =
     (if chart_type = py ''candlestick'' then map py [''Date'', ''Open'', ''High'', ''Low'', ''Close'']
      else if chart_type = py ''scatter'' then [py ''Date'']
      else if chart_type = py ''line'' then [py ''Date'']
      else if chart_type = py ''bar'' then []
      else if chart_type = py ''pie'' then []
      else [py ''Date''])"

definition validate_record :: "pyval \<Rightarrow> pystr \<Rightarrow> bool" where
  "validate_record record chart_type =
     (case record of
        PDict d \<Rightarrow> list_all (dict_has d) (get_required_fields chart_type)
      | _ \<Rightarrow> False)"

text \<open>
  \<open>float(field_value)\<close> cannot fail on a text that \<open>\d+(?:\.\d+)?\<close> has matched.
\<close>

definition extract_fields_manually :: "unicode_db \<Rightarrow> parser \<Rightarrow> pystr \<Rightarrow> pydict option" where
  "extract_fields_manually U self record_text =
     (let record =
            (case re_search U (date_field (chart_patterns self)) record_text of
               None \<Rightarrow> []
             | Some (m, groups, rest) \<Rightarrow> dict_set [] (py ''Date'') (PStr (group1 groups)));
          numeric_matches =
            map snd (re_findall U (numeric_field (chart_patterns self)) record_text);
          record =
            foldl (\<lambda>record groups.
                     case groups of
                       [field_name, field_value] \<Rightarrow>
                         if field_name \<noteq> py ''Date''
                         then dict_set record field_name (PFloat field_value)
                         else record
                     | _ \<Rightarrow> record)
                  record numeric_matches
      in if length record > 1 then Some record else None)"

text \<open>The loop of \<open>_extract_data_records\<close> over the matches, with \<open>parsed_records\<close>.\<close>

fun records_loop ::
  "unicode_db \<Rightarrow> parser \<Rightarrow> pystr \<Rightarrow> pyval list \<Rightarrow> pystr list \<Rightarrow> pyval list" where
  "records_loop U self chart_type parsed_records [] = parsed_records"
| "records_loop U self chart_type parsed_records (record_text # record_matches) =
     (case json_loads record_text of
        Some record \<Rightarrow>
          records_loop U self chart_type
            (if validate_record record chart_type then parsed_records @ [record]
             else parsed_records)
            record_matches
      | None \<Rightarrow>
          (case extract_fields_manually U self record_text of
             None \<Rightarrow> records_loop U self chart_type parsed_records record_matches
           | Some record \<Rightarrow>
               records_loop U self chart_type
                 (if record \<noteq> [] \<and> validate_record (PDict record) chart_type
                  then parsed_records @ [PDict record] else parsed_records)
                 record_matches))"

definition extract_data_records ::
  "unicode_db \<Rightarrow> parser \<Rightarrow> pystr \<Rightarrow> pystr \<Rightarrow> pyval list" where
  "extract_data_records U self text chart_type =
     (case re_search U (data_array_start (chart_patterns self)) text of
        None \<Rightarrow> []
      | Some (m, groups, data_section) \<Rightarrow>
          records_loop U self chart_type []
            (map fst (re_findall U (record_pattern (chart_patterns self)) data_section)))"

subsection \<open>Detection of columns and chart type\<close>

definition x_candidates :: "pystr list" where
  "x_candidates = map py [''Date'', ''date'', ''time'', ''Time'', ''timestamp'', ''Timestamp'']"

fun first_candidate :: "pystr list \<Rightarrow> pyval \<Rightarrow> exc + pystr option" where
  "first_candidate [] sample_record = Inr None"
| "first_candidate (candidate # rest) sample_record =
     bind_exc (py_in candidate sample_record) (\<lambda>found.
       if found then Inr (Some candidate) else first_candidate rest sample_record)"

definition detect_x_column :: "pyval \<Rightarrow> exc + pystr" where
  "detect_x_column records =
     (if \<not> truthy records then Inr (py ''Date'')
      else
        bind_exc (py_first records) (\<lambda>sample_record.
        bind_exc (first_candidate x_candidates sample_record) (\<lambda>found.
          case found of
            Some candidate \<Rightarrow> Inr candidate
          | None \<Rightarrow>
              if truthy sample_record then
                bind_exc (py_items sample_record) (\<lambda>items.
                  case items of [] \<Rightarrow> Inl IndexError | (k, v) # _ \<Rightarrow> Inr k)
              else Inr (py ''Date''))))"

definition detect_y_columns :: "pyval \<Rightarrow> pyval \<Rightarrow> exc + pystr list" where
  "detect_y_columns records chart_type =
     (if \<not> truthy records then Inr []
      else
        bind_exc (py_first records) (\<lambda>sample_record.
        bind_exc (py_items sample_record) (\<lambda>items.
          (let numeric_fields =
                 map fst (filter (\<lambda>(k, v). is_number v \<and> k \<notin> set (map py [''Date'', ''date'']))
                                 items)
           in Inr (if chart_type = PStr (py ''candlestick'')
                   then map py [''Open'', ''High'', ''Low'', ''Close'']
                   else if chart_type = PStr (py ''scatter'')
                   then (if length numeric_fields \<ge> 2 then take 2 numeric_fields
                         else numeric_fields)
                   else if chart_type \<in> set (map PStr (map py [''line'', ''bar'']))
                   then (if numeric_fields \<noteq> [] then take 1 numeric_fields else [])
                   else numeric_fields)))))"

definition detect_chart_type_from_data :: "pyval \<Rightarrow> exc + pystr" where
  "detect_chart_type_from_data data_records =
     (if \<not> truthy data_records then Inr (py ''line'')
      else
        bind_exc (py_first data_records) (\<lambda>first_record.
        bind_exc (py_items first_record) (\<lambda>items.
          (let columns = map fst items in
           if list_all (\<lambda>col. col \<in> set columns) (map py [''Open'', ''High'', ''Low'', ''Close''])
           then Inr (py ''candlestick'')
           else
             (let numeric_cols = filter (\<lambda>col. is_number (dict_get items col PNone)) columns in
              if length numeric_cols \<ge> 2 then Inr (py ''scatter'') else Inr (py ''line''))))))"

subsection \<open>\_enhance\_chart\_data\<close>

definition parser_info :: pyval where
  "parser_info =
     PDict [(py ''method'', PStr (py ''robust_parser_v2'')),
            (py ''version'', PStr (py ''2.0'')),
            (py ''features'',
               PList (map PStr (map py [''truncation_handling'', ''auto_detection'',
                                         ''data_cleaning''])))]"

definition at :: "pydict \<Rightarrow> pystr \<Rightarrow> pyval" where
  "at d k = dict_get d k PNone"

definition enhance_chart_data :: "pydict \<Rightarrow> exc + pydict" where
  "enhance_chart_data chart_data =
     (let e = chart_data;
          e = (if \<not> dict_has e (py ''status'') then dict_set e (py ''status'') (PStr (py ''success''))
               else e)
      in
      bind_exc
        (if \<not> dict_has e (py ''chart_type'') \<and> dict_has e (py ''data'') then
           bind_exc (detect_chart_type_from_data (at e (py ''data''))) (\<lambda>t.
             Inr (dict_set e (py ''chart_type'') (PStr t)))
         else Inr e) (\<lambda>e.
      bind_exc
        (if dict_has e (py ''data'') \<and> truthy (at e (py ''data'')) then
           bind_exc
             (if \<not> dict_has e (py ''x'') then
                bind_exc (detect_x_column (at e (py ''data''))) (\<lambda>x.
                  Inr (dict_set e (py ''x'') (PStr x)))
              else Inr e) (\<lambda>e.
           if \<not> dict_has e (py ''y'') then
             bind_exc (detect_y_columns (at e (py ''data''))
                         (dict_get e (py ''chart_type'') (PStr (py ''line'')))) (\<lambda>y.
               Inr (dict_set e (py ''y'') (PList (map PStr y))))
           else Inr e)
         else Inr e) (\<lambda>e.
      bind_exc
        (if dict_has e (py ''data'') then
           bind_exc (py_len (at e (py ''data''))) (\<lambda>n.
             Inr (dict_set (dict_set e (py ''data_count'') (PInt (int n)))
                    (py ''data_complete'') (PBool True)))
         else Inr e) (\<lambda>e.
      Inr (dict_set e (py ''parser_info'') parser_info)))))"

subsection \<open>parse\_response\<close>

text \<open>
  The first attempt: normal JSON parsing of the cleaned response.  \<open>None\<close> when control
  goes on to the pattern-based extraction; otherwise what \<open>_enhance_chart_data\<close> returns
  or raises.
\<close>

definition direct_parse :: "unicode_db \<Rightarrow> pystr \<Rightarrow> (exc + pydict) option" where
  "direct_parse U response_text =
     (let cleaned_response = clean_truncated_response U response_text in
      if startswith (strip cleaned_response) [123] then
        (case json_loads cleaned_response of
           Some (PDict parsed_json) \<Rightarrow>
             if dict_get parsed_json (py ''status'') PNone = PStr (py ''success'')
             then Some (enhance_chart_data parsed_json)
             else None
         | _ \<Rightarrow> None)
      else None)"

text \<open>
  The second attempt.  The metadata dict has the key \<open>chart_type\<close> only, so both
  \<open>chart_info.get\<close> calls return their default, which Python has evaluated already.
\<close>

definition pattern_extraction ::
  "unicode_db \<Rightarrow> parser \<Rightarrow> pystr \<Rightarrow> (exc + pydict) option" where
  "pattern_extraction U self response_text =
     (case extract_chart_metadata U self response_text of
        None \<Rightarrow> None
      | Some chart_type \<Rightarrow>
          (let data_records = extract_data_records U self response_text chart_type in
           if data_records = [] then None
           else
             Some (bind_exc (detect_x_column (PList data_records)) (\<lambda>x.
                   bind_exc (detect_y_columns (PList data_records) (PStr chart_type)) (\<lambda>y.
                     Inr [(py ''status'', PStr (py ''success'')),
                          (py ''chart_type'', PStr chart_type),
                          (py ''data'', PList data_records),
                          (py ''x'', PStr x),
                          (py ''y'', PList (map PStr y))])))))"

text \<open>
  The whole method; \<open>None\<close> is Python's \<open>None\<close>, returned also from
  \<open>except Exception\<close>.
\<close>

definition caught :: "(exc + pydict) option \<Rightarrow> pydict option" where
  "caught r = (case r of None \<Rightarrow> None | Some (Inl e) \<Rightarrow> None | Some (Inr d) \<Rightarrow> Some d)"

definition parse_response :: "unicode_db \<Rightarrow> parser \<Rightarrow> pystr \<Rightarrow> pydict option" where
  "parse_response U self response_text =
     (if is_error_response response_text then Some (extract_error_message response_text)
      else
        (case direct_parse U response_text of
           Some r \<Rightarrow> caught (Some r)
         | None \<Rightarrow> caught (pattern_extraction U self response_text)))"

subsection \<open>The methods with their effects\<close>

text \<open>
  What a call can read and write besides its arguments: the attributes of the parser
  object, and the module's \<open>logger\<close>.  The world holds the parser object and the calls
  made to the logger, in order.  A logged f-string is kept as its literal parts and the
  values of its fields, unformatted; the last field of an error message is the exception
  caught.
\<close>

datatype level = DEBUG | INFO | WARNING | ERROR

datatype log_part = Literal pystr | Field pyval | Exception exc

record world =
  parser_object :: parser
  logger_calls :: "(level \<times> log_part list) list"

text \<open>
  \<open>self.chart_patterns[...]\<close> and \<open>self.supported_chart_types\<close> are reads of the world;
  \<open>logger.debug\<close>, \<open>logger.info\<close>, \<open>logger.warning\<close> and \<open>logger.error\<close> append to the
  log.
\<close>

definition attribute :: "(parser \<Rightarrow> 'a) \<Rightarrow> (world, 'a) state" where
  "attribute f = State (\<lambda>w. (f (parser_object w), w))"

definition logger_call :: "level \<Rightarrow> log_part list \<Rightarrow> (world, unit) state" where
  "logger_call l message =
     State (\<lambda>w. ((), w\<lparr>logger_calls := logger_calls w @ [(l, message)]\<rparr>))"

text \<open>
  The methods below are those that read an attribute, call the logger, or call a method
  that does; each follows its source statement by statement, with the world passed
  along.  The bodies of \<open>_is_error_response\<close>, \<open>_extract_error_message\<close>,
  \<open>_clean_error_message\<close>, \<open>_validate_record\<close>, \<open>_get_required_fields\<close>,
  \<open>_detect_x_column\<close>, \<open>_detect_y_columns\<close> and \<open>_detect_chart_type_from_data\<close> have no
  attribute of \<open>self\<close> and no logger call in them: they are the functions above.

  \<open>_clean_truncated_response\<close>: the loop over the matches logs each record that
  \<open>json.loads\<close> rejects.
\<close>

fun complete_records_loop :: "pystr list \<Rightarrow> pystr list \<Rightarrow> (world, pystr list) state" where
  "complete_records_loop complete_records [] = State_Monad.return complete_records"
| "complete_records_loop complete_records (record_text # matches) =
     (case json_loads record_text of
        Some v \<Rightarrow> complete_records_loop (complete_records @ [record_text]) matches
      | None \<Rightarrow> do {
          logger_call DEBUG [Literal (py ''Skipping incomplete record: ''),
                             Field (PStr (take 50 record_text)), Literal (py ''...'')];
          complete_records_loop complete_records matches
        })"

definition clean_truncated_response_m :: "unicode_db \<Rightarrow> pystr \<Rightarrow> (world, pystr) state" where
  \<open>clean_truncated_response_m U response_text =
     (let cleaned_text = strip response_text in
      case str_find cleaned_text (py ''"data": ['') of
        None \<Rightarrow> State_Monad.return cleaned_text
      | Some data_start \<Rightarrow> do {
          let records_section = drop data_start cleaned_text;
          complete_records \<leftarrow>
            complete_records_loop []
              (map fst (re_findall U local_record_pattern records_section));
          if complete_records \<noteq> [] then do {
            let before_data = take data_start cleaned_text;
            let records_json = join (py '', '') complete_records;
            let after_data =
                  (case re_search U after_data_pattern cleaned_text of
                     None \<Rightarrow> []
                   | Some (m, groups, rest) \<Rightarrow> py '', '' @ group1 groups);
            let reconstructed =
                  before_data @ py ''"data": ['' @ records_json @ py '']'' @ after_data @ py ''}'';
            logger_call INFO
              [Literal (py ''Cleaned response: removed incomplete data, kept ''),
               Field (PInt (int (length complete_records))),
               Literal (py '' complete records'')];
            State_Monad.return reconstructed
          } else State_Monad.return cleaned_text
        })\<close>

text \<open>
  \<open>_enhance_chart_data\<close>: its one logger call is its last statement before \<open>return\<close>, so
  an exception ends the method before the call.
\<close>

definition enhance_chart_data_m :: "pydict \<Rightarrow> (world, exc + pydict) state" where
  "enhance_chart_data_m chart_data =
     (case enhance_chart_data chart_data of
        Inl e \<Rightarrow> State_Monad.return (Inl e)
      | Inr enhanced_data \<Rightarrow> do {
          logger_call INFO
            [Literal (py ''Enhanced chart data with ''),
             Field (dict_get enhanced_data (py ''data_count'') (PInt 0)),
             Literal (py '' complete records'')];
          State_Monad.return (Inr enhanced_data)
        })"

text \<open>\<open>_extract_chart_metadata\<close>, with its three reads of \<open>self\<close>.\<close>

definition extract_chart_metadata_m :: "unicode_db \<Rightarrow> pystr \<Rightarrow> (world, pystr option) state" where
  "extract_chart_metadata_m U text = do {
     status_success_pattern \<leftarrow> attribute (\<lambda>self. status_success (chart_patterns self));
     if re_search U status_success_pattern text = None then State_Monad.return None
     else do {
       chart_type_pattern \<leftarrow> attribute (\<lambda>self. chart_type_pattern (chart_patterns self));
       case re_search U chart_type_pattern text of
         None \<Rightarrow> State_Monad.return None
       | Some (m, groups, rest) \<Rightarrow> do {
           let chart_type = group1 groups;
           supported \<leftarrow> attribute supported_chart_types;
           if chart_type \<notin> set supported then do {
             logger_call WARNING
               [Literal (py ''Unsupported chart type: ''), Field (PStr chart_type)];
             State_Monad.return None
           } else State_Monad.return (Some chart_type)
         }
     }
   }"

text \<open>
  \<open>_extract_fields_manually\<close>: no statement of its \<open>try\<close> block raises, so the logger
  call of its \<open>except\<close> branch is never made.
\<close>

definition extract_fields_manually_m :: "unicode_db \<Rightarrow> pystr \<Rightarrow> (world, pydict option) state" where
  "extract_fields_manually_m U record_text = do {
     date_pattern \<leftarrow> attribute (\<lambda>self. date_field (chart_patterns self));
     let record =
           (case re_search U date_pattern record_text of
              None \<Rightarrow> []
            | Some (m, groups, rest) \<Rightarrow> dict_set [] (py ''Date'') (PStr (group1 groups)));
     numeric_pattern \<leftarrow> attribute (\<lambda>self. numeric_field (chart_patterns self));
     let numeric_matches = map snd (re_findall U numeric_pattern record_text);
     let record =
           foldl (\<lambda>record groups.
                    case groups of
                      [field_name, field_value] \<Rightarrow>
                        if field_name \<noteq> py ''Date''
                        then dict_set record field_name (PFloat field_value)
                        else record
                    | _ \<Rightarrow> record)
                 record numeric_matches;
     State_Monad.return (if length record > 1 then Some record else None)
   }"

text \<open>\<open>_extract_data_records\<close> and its loop.\<close>

fun records_loop_m ::
  "unicode_db \<Rightarrow> pystr \<Rightarrow> pyval list \<Rightarrow> pystr list \<Rightarrow> (world, pyval list) state" where
  "records_loop_m U chart_type parsed_records [] = State_Monad.return parsed_records"
| "records_loop_m U chart_type parsed_records (record_text # record_matches) =
     (case json_loads record_text of
        Some record \<Rightarrow>
          records_loop_m U chart_type
            (if validate_record record chart_type then parsed_records @ [record]
             else parsed_records)
            record_matches
      | None \<Rightarrow> do {
          extracted \<leftarrow> extract_fields_manually_m U record_text;
          case extracted of
            None \<Rightarrow> records_loop_m U chart_type parsed_records record_matches
          | Some record \<Rightarrow>
              records_loop_m U chart_type
                (if record \<noteq> [] \<and> validate_record (PDict record) chart_type
                 then parsed_records @ [PDict record] else parsed_records)
                record_matches
        })"

definition extract_data_records_m ::
  "unicode_db \<Rightarrow> pystr \<Rightarrow> pystr \<Rightarrow> (world, pyval list) state" where
  "extract_data_records_m U text chart_type = do {
     data_array_start_pattern \<leftarrow> attribute (\<lambda>self. data_array_start (chart_patterns self));
     case re_search U data_array_start_pattern text of
       None \<Rightarrow> State_Monad.return []
     | Some (m, groups, data_section) \<Rightarrow> do {
         record_pattern \<leftarrow> attribute (\<lambda>self. record_pattern (chart_patterns self));
         records_loop_m U chart_type [] (map fst (re_findall U record_pattern data_section))
       }
   }"

text \<open>
  The two attempts of \<open>parse_response\<close>.  \<open>json.JSONDecodeError\<close> is logged and the
  second attempt follows; any other exception goes to the \<open>except Exception\<close> of the
  method, which logs it and returns \<open>None\<close>.
\<close>

definition direct_parse_m :: "unicode_db \<Rightarrow> pystr \<Rightarrow> (world, (exc + pydict) option) state" where
  "direct_parse_m U response_text = do {
     cleaned_response \<leftarrow> clean_truncated_response_m U response_text;
     if startswith (strip cleaned_response) [123] then
       (case json_loads cleaned_response of
          None \<Rightarrow> do {
            logger_call INFO
              [Literal (py (''Standard JSON parsing failed even after cleaning, '' @
                            ''attempting pattern extraction''))];
            State_Monad.return None
          }
        | Some (PDict parsed_json) \<Rightarrow>
            if dict_get parsed_json (py ''status'') PNone = PStr (py ''success'') then do {
              logger_call INFO [Literal (py ''Successfully parsed cleaned JSON response'')];
              enhanced \<leftarrow> enhance_chart_data_m parsed_json;
              State_Monad.return (Some enhanced)
            } else State_Monad.return None
        | Some _ \<Rightarrow> State_Monad.return None)
     else State_Monad.return None
   }"

definition pattern_extraction_m ::
  "unicode_db \<Rightarrow> pystr \<Rightarrow> (world, (exc + pydict) option) state" where
  "pattern_extraction_m U response_text = do {
     chart_info \<leftarrow> extract_chart_metadata_m U response_text;
     case chart_info of
       None \<Rightarrow> do {
         logger_call WARNING [Literal (py ''Could not extract chart metadata from response'')];
         State_Monad.return None
       }
     | Some chart_type \<Rightarrow> do {
         data_records \<leftarrow> extract_data_records_m U response_text chart_type;
         if data_records = [] then do {
           logger_call WARNING [Literal (py ''Could not extract data records from response'')];
           State_Monad.return None
         } else
           (case bind_exc (detect_x_column (PList data_records)) (\<lambda>x.
                 bind_exc (detect_y_columns (PList data_records) (PStr chart_type)) (\<lambda>y.
                   Inr [(py ''status'', PStr (py ''success'')),
                        (py ''chart_type'', PStr chart_type),
                        (py ''data'', PList data_records),
                        (py ''x'', PStr x),
                        (py ''y'', PList (map PStr y))])) of
              Inl e \<Rightarrow> State_Monad.return (Some (Inl e))
            | Inr result \<Rightarrow> do {
                logger_call INFO
                  [Literal (py ''Successfully parsed ''),
                   Field (PInt (int (length data_records))),
                   Literal (py '' records for ''), Field (PStr chart_type),
                   Literal (py '' chart'')];
                State_Monad.return (Some (Inr result))
              })
       }
   }"

definition caught_m :: "(exc + pydict) option \<Rightarrow> (world, pydict option) state" where
  "caught_m r =
     (case r of
        None \<Rightarrow> State_Monad.return None
      | Some (Inl e) \<Rightarrow> do {
          logger_call ERROR [Literal (py ''Error in robust JSON parsing: ''), Exception e];
          State_Monad.return None
        }
      | Some (Inr d) \<Rightarrow> State_Monad.return (Some d))"

definition parse_response_m :: "unicode_db \<Rightarrow> pystr \<Rightarrow> (world, pydict option) state" where
  "parse_response_m U response_text =
     (if is_error_response response_text
      then State_Monad.return (Some (extract_error_message response_text))
      else do {
        direct \<leftarrow> direct_parse_m U response_text;
        case direct of
          Some r \<Rightarrow> caught_m (Some r)
        | None \<Rightarrow> do {
            extracted \<leftarrow> pattern_extraction_m U response_text;
            caught_m extracted
          }
      })"

section \<open>Column resolution (chart\_utils.py)\<close>

text \<open>
  The first part of \<open>_process_chart_data\<close>: \<open>data\<close>, \<open>x_col\<close> and \<open>y_col\<close> as found in the
  response.  The log line of the first branch takes \<open>len(data)\<close>; \<open>json.loads\<close> of
  anything but a string is a \<open>TypeError\<close>, and so is \<open>parsed["data"]\<close> on a list or a
  string.
\<close>

definition locate_data :: "pyval \<Rightarrow> exc + pyval \<times> pyval \<times> pyval" where
  "locate_data chart_data =
     (case chart_data of
        PDict d \<Rightarrow>
          if dict_has d (py ''data'') \<and> truthy (at d (py ''data'')) then
            bind_exc (py_len (at d (py ''data''))) (\<lambda>n.
              Inr (at d (py ''data''), dict_get d (py ''x'') (PStr []),
                   dict_get d (py ''y'') (PStr [])))
          else if dict_has d (py ''response'') then
            (case at d (py ''response'') of
               PStr text \<Rightarrow>
                 (case json_loads text of
                    None \<Rightarrow> Inr (PNone, PStr [], PStr [])
                  | Some parsed \<Rightarrow>
                      bind_exc (py_in (py ''data'') parsed) (\<lambda>has_data.
                        if has_data then
                          (case parsed of
                             PDict pd \<Rightarrow>
                               Inr (at pd (py ''data''), dict_get pd (py ''x'') (PStr []),
                                    dict_get pd (py ''y'') (PStr []))
                           | _ \<Rightarrow> Inl TypeError)
                        else Inr (PNone, PStr [], PStr [])))
             | _ \<Rightarrow> Inl TypeError)
          else Inr (PNone, PStr [], PStr [])
      | _ \<Rightarrow> Inr (PNone, PStr [], PStr []))"

text \<open>\<open>list(data[0].keys()) if data[0] and isinstance(data[0], dict) else []\<close>\<close>

definition columns_of :: "pyval \<Rightarrow> pystr list" where
  "columns_of first = (case first of PDict d \<Rightarrow> map fst d | _ \<Rightarrow> [])"

definition candlestick_cols :: "pystr list" where
  "candlestick_cols = map py [''Open'', ''High'', ''Low'', ''Close'']"

text \<open>
  The second part, on a non-empty list \<open>data\<close>: the resolved columns, or \<open>None\<close> where
  the code returns \<open>None\<close>.
\<close>

definition resolve_columns :: "pyval list \<Rightarrow> pyval \<Rightarrow> pyval \<Rightarrow> pydict option" where
  "resolve_columns data x_col y_col =
     (case data of
        [] \<Rightarrow> None
      | first # _ \<Rightarrow>
          (let columns = columns_of first;
               candlestick = (case y_col of PList ys \<Rightarrow> length ys \<ge> 4 | _ \<Rightarrow> False);
               missing_cols = filter (\<lambda>col. col \<notin> set columns) candlestick_cols
           in if candlestick \<and> missing_cols \<noteq> [] then None
              else
                (let y_col = (if candlestick then PStr (py ''Close'') else y_col);
                     x_col = (case columns of
                                [] \<Rightarrow> x_col
                              | c0 # _ \<Rightarrow> if \<not> truthy x_col then PStr c0 else x_col);
                     y_col = (case columns of
                                [] \<Rightarrow> y_col
                              | [c0] \<Rightarrow> if \<not> truthy y_col then PStr c0 else y_col
                              | c0 # c1 # _ \<Rightarrow> if \<not> truthy y_col then PStr c1 else y_col)
                 in if \<not> truthy x_col \<or> \<not> truthy y_col then None
                    else Some [(py ''data'', PList data), (py ''x_col'', x_col),
                               (py ''y_col'', y_col),
                               (py ''columns'', PList (map PStr (columns_of first)))])))"

text \<open>The whole method; every exception ends in \<open>return None\<close>.\<close>

definition process_chart_data :: "pyval \<Rightarrow> pydict option" where
  "process_chart_data chart_data =
     (case locate_data chart_data of
        Inl e \<Rightarrow> None
      | Inr (data, x_col, y_col) \<Rightarrow>
          if \<not> truthy data then None
          else (case data of
                  PList records \<Rightarrow> resolve_columns records x_col y_col
                | _ \<Rightarrow> None))"

section \<open>Query router (api\_client.py, config.py)\<close>

definition dashboard_keywords :: "pystr list" where
  "dashboard_keywords = map py
     [''dashboard'', ''live dashboard'', ''create dashboard'', ''build dashboard'',
      ''dashboard with'', ''interactive dashboard'', ''real-time dashboard'']"

definition chart_keywords :: "pystr list" where
  "chart_keywords = map py
     [''chart'', ''plot'', ''graph'', ''visualize'', ''visualization'', ''bar chart'',
      ''line chart'', ''pie chart'', ''scatter plot'', ''histogram'', ''heatmap'',
      ''candlestick'', ''stacked bar'', ''create chart'', ''show chart'', ''generate chart'',
      ''plot data'', ''visualize data'']"

definition table_keywords :: "pystr list" where
  "table_keywords = map py
     [''table'', ''raw data'', ''show data'', ''view data'', ''display data'', ''data table'',
      ''show table'', ''preview data'', ''sample data'', ''first rows'', ''head'', ''limit'',
      ''select'', ''query'', ''sql'', ''dataframe'', ''dataset'']"

text \<open>
  One \<open>for keyword in ...: if keyword in query_lower: return ...\<close> loop: whether the
  loop returns.
\<close>

fun keyword_loop :: "pystr list \<Rightarrow> pystr \<Rightarrow> bool" where
  "keyword_loop [] query_lower = False"
| "keyword_loop (keyword # rest) query_lower =
     (if contains keyword query_lower then True else keyword_loop rest query_lower)"

definition classify_query :: "unicode_db \<Rightarrow> pystr \<Rightarrow> pystr" where
  "classify_query U query =
     (let query_lower = str_lower U query in
      if keyword_loop dashboard_keywords query_lower then py ''dashboard''
      else if keyword_loop chart_keywords query_lower then py ''json_generator''
      else if keyword_loop table_keywords query_lower then py ''json_generator''
      else py ''main'')"

subsection \<open>The reference algorithm of the specification\<close>

datatype intent = Dashboard | Chart_Table | General

text \<open>The intent each returned API type stands for.\<close>

definition intent_of :: "pystr \<Rightarrow> intent option" where
  "intent_of api_type =
     (if api_type = py ''dashboard'' then Some Dashboard
      else if api_type = py ''json_generator'' then Some Chart_Table
      else if api_type = py ''main'' then Some General
      else None)"

text \<open>
  Case-insensitive substring search: the keyword occurs in the query when both are
  brought to lower case.
\<close>

definition ci_occurs :: "unicode_db \<Rightarrow> pystr \<Rightarrow> pystr \<Rightarrow> bool" where
  "ci_occurs U keyword query = sublist (str_lower U keyword) (str_lower U query)"

definition any_keyword :: "unicode_db \<Rightarrow> pystr list \<Rightarrow> pystr \<Rightarrow> bool" where
  "any_keyword U keywords query = list_ex (\<lambda>k. ci_occurs U k query) keywords"

text \<open>
  The three ordered lists with the intent each one stands for; the first list with any
  matching keyword wins, no match gives the default.
\<close>

definition ordered_lists :: "(pystr list \<times> intent) list" where
  "ordered_lists =
     [(dashboard_keywords, Dashboard), (chart_keywords, Chart_Table),
      (table_keywords, Chart_Table)]"

definition reference_classify :: "unicode_db \<Rightarrow> pystr \<Rightarrow> intent" where
  "reference_classify U query =
     (case find (\<lambda>(keywords, i). any_keyword U keywords query) ordered_lists of
        Some (keywords, i) \<Rightarrow> i
      | None \<Rightarrow> General)"

text \<open>The configured keywords are lower-case ASCII, which \<open>str.lower\<close> leaves alone.\<close>

definition keywords_lower :: "unicode_db \<Rightarrow> bool" where
  "keywords_lower U =
     list_all (\<lambda>k. str_lower U k = k) (dashboard_keywords @ chart_keywords @ table_keywords)"

section \<open>Sample responses\<close>

text \<open>
  The truncated response of the specification, cut after its third record, and the
  three records it holds.
\<close>

definition truncated_response :: pystr where
  \<open>truncated_response = py (''{"status":"success","chart_type":"scatter","data":['' @
     ''{"Open":551.0,"Close":545.45,"Date":"2016-05-31"},'' @
     ''{"Open":547.2,"Close":550.15,"Date":"2016-05-30"},'' @
     ''{"Open":543.15,"Close":545.4,"Date":"2016-05-27"}'')\<close>

definition three_records :: "pyval list" where
  "three_records =
     [PDict [(py ''Open'', PFloat (py ''551.0'')), (py ''Close'', PFloat (py ''545.45'')),
             (py ''Date'', PStr (py ''2016-05-31''))],
      PDict [(py ''Open'', PFloat (py ''547.2'')), (py ''Close'', PFloat (py ''550.15'')),
             (py ''Date'', PStr (py ''2016-05-30''))],
      PDict [(py ''Open'', PFloat (py ''543.15'')), (py ''Close'', PFloat (py ''545.4'')),
             (py ''Date'', PStr (py ''2016-05-27''))]]"

text \<open>Well-formed and truncated responses that declare a chart type outside the five.\<close>

definition unsupported_success :: pystr where
  \<open>unsupported_success = py ''{"status":"success","chart_type":"heatmap","data":[{"a":1}]}''\<close>

definition unsupported_truncated :: pystr where
  \<open>unsupported_truncated = py ''{"status":"success","chart_type":"heatmap","data":[{"a":1},{"a":''\<close>

text \<open>
  A well-formed response whose declared columns are not keys of its record, and a
  truncated one whose second record has none of the keys of the first.
\<close>

definition mismatched_columns :: pystr where
  \<open>mismatched_columns =
     py ''{"status":"success","chart_type":"bar","data":[{"a":1}],"x":"month","y":"sales"}''\<close>

definition truncated_bar :: pystr where
  \<open>truncated_bar = py ''{"status":"success","chart_type":"bar","data":[{"a":1},{"b":2}''\<close>

text \<open>Responses with an empty data array, with a fragment inside a string, and with
  two malformed records.\<close>

definition empty_data :: pystr where
  \<open>empty_data = py ''{"status": "success", "data": []}''\<close>

definition quoted_fragment :: pystr where
  \<open>quoted_fragment =
     py ''{"status":"success","chart_type":"bar","x":"a","y":"b","data":["{x}"]}''\<close>

definition unquoted_key_record :: pystr where
  "unquoted_key_record = py ''{Open: 551.0}''"

definition missing_colon_record :: pystr where
  \<open>missing_colon_record = py ''{"Close" 545}''\<close>

definition broken_section :: pystr where
  \<open>broken_section = unquoted_key_record @ py '', '' @ missing_colon_record @ py '']}''\<close>

definition broken_records :: pystr where
  \<open>broken_records =
     py ''{"status": "success", "chart_type": "bar", "data": ['' @ broken_section\<close>

text \<open>Error texts and error responses.\<close>

definition table_error_text :: pystr where
  "table_error_text = py (''[TABLE_OR_VIEW_NOT_FOUND] The table or view TCS_stock '' @
     ''cannot be found. SQLSTATE: 42P01'')"

definition error_with_data :: pystr where
  \<open>error_with_data = py ''{"status": "error", "error": "'' @ table_error_text @
     py ''", "data": []}''\<close>

definition nested_table_error :: pystr where
  \<open>nested_table_error = py (''{"error": "SQLSTATE 42P01", "details": {"error": '' @
     ''"[TABLE_OR_VIEW_NOT_FOUND] Table not found. SQLSTATE 42P01"}}'')\<close>

definition column_error_text :: pystr where
  "column_error_text = py ''Column revenue cannot be resolved. SQLSTATE: 42703''"

definition long_failure :: pystr where
  "long_failure = py (''SQLSTATE[08006]: Failed to connect to the warehouse endpoint after '' @
     ''3 attempts; the connection was refused by the remote host, the cluster may be '' @
     ''paused or restarting, please retry the query in a few minutes or contact the '' @
     ''administrator'')"

section \<open>Properties\<close>

subsection \<open>The JSON decoder consumes its input\<close>

lemma scanstring_shorter: "scanstring s = Some (str, r) \<Longrightarrow> length r < length s"
proof (induction s arbitrary: str rule: scanstring.induct)
  case 1
  then show ?case by simp
next
  case (2 c cs)
  show ?case
  proof (cases "c = 34")
    case True
    with "2.prems" show ?thesis by simp
  next
    case notq: False
    show ?thesis
    proof (cases "c = 92")
      case True
      with notq "2.prems" obtain u n chunk where
        d: "decode_escape cs = Some (u, n)" and s: "scanstring (drop n cs) = Some (chunk, r)"
        by (auto split: option.splits)
      from "2.IH"(1) [OF notq True d refl s] have "length r < length (drop n cs)" .
      then show ?thesis by simp
    next
      case False
      with notq "2.prems" obtain chunk where s: "scanstring cs = Some (chunk, r)"
        by (auto split: option.splits if_splits)
      with "2.IH"(2) [OF notq False _ s] "2.prems" notq False show ?thesis
        by (auto split: if_splits)
    qed
  qed
qed

lemma match_number_shorter: "match_number s = Some (v, r) \<Longrightarrow> length r < length s"
proof -
  assume a: "match_number s = Some (v, r)"
  define s1 where "s1 = (if startswith s [45] then tl s else s)"
  define integer where "integer = (if startswith s1 [48] then [48] else takeWhile is_digit s1)"
  have le: "length s1 \<le> length s" by (simp add: s1_def)
  have "integer \<noteq> []" using a
    by (simp add: match_number_def Let_def s1_def integer_def split: if_splits)
  moreover have "length integer \<le> length s1"
    by (cases s1) (auto simp: integer_def length_takeWhile_le)
  ultimately have "length (drop (length integer) s1) < length s1"
    by (cases integer) auto
  moreover have "length r \<le> length (drop (length integer) s1)" using a
    by (auto simp: match_number_def Let_def s1_def integer_def split: if_splits)
  ultimately show ?thesis using le by linarith
qed

lemma scan_once_shorter_all:
  "(\<forall>v r. scan_once s = Some (v, r) \<longrightarrow> length r < length s)"
  "(\<forall>v r. parse_array acc s = Some (v, r) \<longrightarrow> length r < length s)"
  "(\<forall>v r. parse_object dacc s = Some (v, r) \<longrightarrow> length r < length s)"
proof (induction s and acc s and dacc s rule: scan_once_parse_array_parse_object.induct)
  case (1 s)
  show ?case
  proof (intro allI impI)
    fix v r assume a0: "scan_once s = Some (v, r)"
    note a = a0 [unfolded scan_once.simps [of s]]
    then obtain c cs where s: "s = c # cs" by (cases s) auto
    consider (str) "c = 34" | (obj) "c \<noteq> 34" "c = 123" | (arr) "c \<noteq> 34" "c \<noteq> 123" "c = 91"
      | (other) "c \<noteq> 34" "c \<noteq> 123" "c \<noteq> 91" by blast
    then show "length r < length s"
    proof cases
      case str
      with a s show ?thesis by (auto split: option.splits dest: scanstring_shorter)
    next
      case obj
      show ?thesis
      proof (cases "skip_ws cs")
        case Nil
        with a s obj show ?thesis by simp
      next
        case (Cons d rest)
        show ?thesis
        proof (cases "d = 125")
          case True
          with a s obj Cons skip_ws_Cons_length [OF Cons] show ?thesis by auto
        next
          case False
          with a s obj Cons have "parse_object [] (skip_ws cs) = Some (v, r)" by simp
          with "1.IH"(1) [OF s obj(1) obj(2) Cons False] have "length r < length (skip_ws cs)"
            by blast
          with length_skip_ws [of cs] s show ?thesis by simp
        qed
      qed
    next
      case arr
      show ?thesis
      proof (cases "skip_ws cs")
        case Nil
        with a s arr show ?thesis by simp
      next
        case (Cons d rest)
        show ?thesis
        proof (cases "d = 93")
          case True
          with a s arr Cons skip_ws_Cons_length [OF Cons] show ?thesis by auto
        next
          case False
          with a s arr Cons have "parse_array [] (skip_ws cs) = Some (v, r)" by simp
          with "1.IH"(2) [OF s arr(1) arr(2) arr(3) Cons False]
          have "length r < length (skip_ws cs)" by blast
          with length_skip_ws [of cs] s show ?thesis by simp
        qed
      qed
    next
      case other
      with a s show ?thesis
        by (auto split: if_splits dest: match_number_shorter)
    qed
  qed
next
  case (2 acc s)
  show ?case
  proof (intro allI impI)
    fix v r assume a0: "parse_array acc s = Some (v, r)"
    note a = a0 [unfolded parse_array.simps [of acc s]]
    then obtain v1 r1 where so: "scan_once s = Some (v1, r1)"
      by (auto split: option.splits)
    with "2.IH"(1) have r1: "length r1 < length s" by blast
    from a so obtain d rest where sk: "skip_ws r1 = d # rest"
      by (cases "skip_ws r1") auto
    from skip_ws_Cons_length [OF sk] r1 have rest: "length rest < length s" by simp
    show "length r < length s"
    proof (cases "d = 93")
      case True
      with a so sk rest show ?thesis by simp
    next
      case False
      with a so sk rest have d: "d = 44" and p: "parse_array (acc @ [v1]) (skip_ws rest) = Some (v, r)"
        by (auto split: if_splits)
      from "2.IH"(2) [OF so refl sk False] d rest p
      have "length r < length (skip_ws rest)" by blast
      with length_skip_ws [of rest] rest show ?thesis by simp
    qed
  qed
next
  case (3 dacc s)
  show ?case
  proof (intro allI impI)
    fix v r assume a0: "parse_object dacc s = Some (v, r)"
    note a = a0 [unfolded parse_object.simps [of dacc s]]
    then obtain q ks where s: "s = q # ks" by (cases s) auto
    with a have q: "q = 34" by (auto split: if_splits)
    from a s q obtain key r0 where ss: "scanstring ks = Some (key, r0)"
      by (auto split: option.splits)
    from a s q ss obtain colon r1 where sk: "skip_ws r0 = colon # r1"
      by (cases "skip_ws r0") auto
    from a s q ss sk have c: "colon = 58" and g1: "length r1 < length s"
      by (auto split: if_splits)
    from a s q ss sk c g1 obtain v1 r2 where so: "scan_once (skip_ws r1) = Some (v1, r2)"
      by (auto split: option.splits)
    have qn: "\<not> q \<noteq> 34" using q by simp
    from "3.IH"(1) [OF s qn ss refl sk] c g1 so
    have "length r2 < length (skip_ws r1)" by blast
    with length_skip_ws [of r1] g1 have r2: "length r2 < length s" by simp
    from a s q ss sk c g1 so obtain d rest where sk2: "skip_ws r2 = d # rest"
      by (cases "skip_ws r2") auto
    from skip_ws_Cons_length [OF sk2] r2 have rest: "length rest < length s" by simp
    show "length r < length s"
    proof (cases "d = 125")
      case True
      with a s q ss sk c g1 so sk2 rest show ?thesis by simp
    next
      case False
      with a s q ss sk c g1 so sk2 rest have d: "d = 44"
        and p: "parse_object (dict_set dacc key v1) (skip_ws rest) = Some (v, r)"
        by (auto split: if_splits)
      from "3.IH"(2) [OF s qn ss refl sk _ so refl sk2 False]
        c g1 d rest p
      have "length r < length (skip_ws rest)" by blast
      with length_skip_ws [of rest] rest show ?thesis by simp
    qed
  qed
qed


lemma scan_once_shorter: "scan_once s = Some (v, r) \<Longrightarrow> length r < length s"
  using scan_once_shorter_all(1) by blast

text \<open>The loops without the tests on lengths.\<close>

lemma parse_array_unfold:
  "parse_array acc s =
     (case scan_once s of
        None \<Rightarrow> None
      | Some (v, r) \<Rightarrow>
          (case skip_ws r of
             [] \<Rightarrow> None
           | d # rest \<Rightarrow>
               if d = 93 then Some (PList (acc @ [v]), rest)
               else if d = 44 then parse_array (acc @ [v]) (skip_ws rest)
               else None))"
proof (cases "scan_once s")
  case None
  then show ?thesis by (subst parse_array.simps) simp
next
  case (Some p)
  obtain v r where p: "p = (v, r)" by (cases p)
  from Some p have r: "length r < length s" by (auto dest: scan_once_shorter)
  show ?thesis
  proof (cases "skip_ws r")
    case Nil
    with Some p show ?thesis by (subst parse_array.simps) simp
  next
    case (Cons d rest)
    from skip_ws_Cons_length [OF Cons] r have "length rest < length s" by simp
    with Some p Cons show ?thesis by (subst parse_array.simps) simp
  qed
qed

lemma parse_object_unfold:
  "parse_object acc s =
     (case s of
        [] \<Rightarrow> None
      | q # ks \<Rightarrow>
          if q \<noteq> 34 then None
          else
            (case scanstring ks of
               None \<Rightarrow> None
             | Some (key, r) \<Rightarrow>
                 (case skip_ws r of
                    [] \<Rightarrow> None
                  | colon # r1 \<Rightarrow>
                      if colon = 58 then
                        (case scan_once (skip_ws r1) of
                           None \<Rightarrow> None
                         | Some (v, r2) \<Rightarrow>
                             (case skip_ws r2 of
                                [] \<Rightarrow> None
                              | d # rest \<Rightarrow>
                                  if d = 125 then Some (PDict (dict_set acc key v), rest)
                                  else if d = 44
                                  then parse_object (dict_set acc key v) (skip_ws rest)
                                  else None))
                      else None)))"
proof (cases s)
  case Nil
  then show ?thesis by (subst parse_object.simps) simp
next
  case s: (Cons q ks)
  show ?thesis
  proof (cases "scanstring ks")
    case None
    with s show ?thesis by (subst parse_object.simps) simp
  next
    case (Some p)
    obtain key r where p: "p = (key, r)" by (cases p)
    from Some p have r: "length r < length ks" by (auto dest: scanstring_shorter)
    show ?thesis
    proof (cases "skip_ws r")
      case Nil
      with s Some p show ?thesis by (subst parse_object.simps) simp
    next
      case c1: (Cons colon r1)
      from skip_ws_Cons_length [OF c1] r s have g1: "length r1 < length s" by simp
      show ?thesis
      proof (cases "scan_once (skip_ws r1)")
        case None
        with s Some p c1 show ?thesis by (subst parse_object.simps) simp
      next
        case so: (Some p2)
        obtain v r2 where p2: "p2 = (v, r2)" by (cases p2)
        from so p2 have "length r2 < length (skip_ws r1)" by (auto dest: scan_once_shorter)
        with length_skip_ws [of r1] g1 have r2: "length r2 < length s" by simp
        show ?thesis
        proof (cases "skip_ws r2")
          case Nil
          with s Some p c1 so p2 show ?thesis by (subst parse_object.simps) simp
        next
          case c2: (Cons d rest)
          from skip_ws_Cons_length [OF c2] r2 have "length rest < length s" by simp
          with s Some p c1 so p2 c2 g1 show ?thesis by (subst parse_object.simps) simp
        qed
      qed
    qed
  qed
qed

subsection \<open>The router\<close>

lemma startswith_iff_prefix: "startswith s p \<longleftrightarrow> prefix p s"
  by (induction s p rule: startswith.induct) auto

lemma contains_iff_sublist: "contains sub s \<longleftrightarrow> sublist sub s"
  by (induction s) (auto simp: startswith_iff_prefix sublist_Cons_right)

lemma keyword_loop_iff: "keyword_loop ks q \<longleftrightarrow> (\<exists>k\<in>set ks. sublist k q)"
  by (induction ks) (auto simp: contains_iff_sublist)

lemma any_keyword_iff:
  assumes "list_all (\<lambda>k. str_lower U k = k) ks"
  shows "any_keyword U ks q \<longleftrightarrow> keyword_loop ks (str_lower U q)"
  using assms
  by (auto simp: any_keyword_def ci_occurs_def keyword_loop_iff list_ex_iff list_all_iff)

text \<open>
  C7: classification is the reference ordered-keyword algorithm (dashboard list first,
  then chart, then table, default otherwise); hence a query with both a dashboard and a
  chart keyword is routed to the dashboard flow.
\<close>

theorem C7_classify_query_reference:
  assumes "keywords_lower U"
  shows "intent_of (classify_query U query) = Some (reference_classify U query) \<and>
         (any_keyword U dashboard_keywords query \<and> any_keyword U chart_keywords query
          \<longrightarrow> classify_query U query = py ''dashboard'')"
proof -
  from assms have d: "list_all (\<lambda>k. str_lower U k = k) dashboard_keywords"
    and c: "list_all (\<lambda>k. str_lower U k = k) chart_keywords"
    and t: "list_all (\<lambda>k. str_lower U k = k) table_keywords"
    by (simp_all add: keywords_lower_def)
  note iff = any_keyword_iff [OF d] any_keyword_iff [OF c] any_keyword_iff [OF t]
  have "intent_of (classify_query U query) = Some (reference_classify U query)"
    by (simp add: classify_query_def reference_classify_def ordered_lists_def iff
        intent_of_def Let_def)
  moreover have "any_keyword U dashboard_keywords query \<and> any_keyword U chart_keywords query
         \<longrightarrow> classify_query U query = py ''dashboard''"
    by (simp add: classify_query_def iff Let_def)
  ultimately show ?thesis by blast
qed

lemma keywords_lower_ascii: "keywords_lower ascii_db"
  by (simp add: keywords_lower_def ascii_db_def dashboard_keywords_def chart_keywords_def
      table_keywords_def)

theorem C7_classify_query_reference_witness:
  "keywords_lower ascii_db \<and>
   any_keyword ascii_db dashboard_keywords (py ''Live DASHBOARD with a pie chart'') \<and>
   any_keyword ascii_db chart_keywords (py ''Live DASHBOARD with a pie chart'') \<and>
   classify_query ascii_db (py ''Live DASHBOARD with a pie chart'') = py ''dashboard'' \<and>
   intent_of (classify_query ascii_db (py ''Live DASHBOARD with a pie chart''))
     = Some (reference_classify ascii_db (py ''Live DASHBOARD with a pie chart''))"
proof -
  let ?q = "py ''Live DASHBOARD with a pie chart''"
  have l: "str_lower ascii_db ?q = py ''live dashboard with a pie chart''"
    by (simp add: ascii_db_def)
  have d: "any_keyword ascii_db dashboard_keywords ?q"
    unfolding any_keyword_iff [OF keywords_lower_ascii [unfolded keywords_lower_def, simplified, THEN conjunct1]] l
    by (simp add: dashboard_keywords_def)
  have c: "any_keyword ascii_db chart_keywords ?q"
    unfolding any_keyword_iff [OF keywords_lower_ascii [unfolded keywords_lower_def, simplified, THEN conjunct2, THEN conjunct1]] l
    by (simp add: chart_keywords_def)
  from C7_classify_query_reference [OF keywords_lower_ascii, of ?q] d c keywords_lower_ascii
  show ?thesis by blast
qed

lemma is_error_response_iff:
  "is_error_response t \<longleftrightarrow> (\<exists>i\<in>set error_indicators. sublist i t)"
  by (simp add: is_error_response_def list_ex_iff contains_iff_sublist)

lemma cleaned_result_shape:
  obtains message error_type where "cleaned_result e t = error_result message error_type"
  by (cases "clean_error_message e") (simp_all add: cleaned_result_def)

lemma extract_error_message_shape:
  obtains message error_type where
    "extract_error_message t = error_result message error_type"
proof -
  have "\<exists>m et. extract_error_message t = error_result m et"
    unfolding extract_error_message_def
    by (auto split: option.split pyval.split intro: cleaned_result_shape)
  then show ?thesis using that by blast
qed

subsection \<open>The parser\<close>

text \<open>
  C10: a text that contains any of the error indicators, wherever it stands, is
  answered with a result of status \<open>error\<close> and \<open>chart_data\<close> \<open>None\<close>; no chart is parsed.
\<close>

theorem C10_error_indicator_gives_error:
  assumes "indicator \<in> set error_indicators" and "sublist indicator response_text"
  shows "\<exists>d. parse_response U self response_text = Some d \<and>
             map_of d (py ''status'') = Some (PStr (py ''error'')) \<and>
             map_of d (py ''chart_data'') = Some PNone"
proof -
  from assms have "is_error_response response_text"
    by (auto simp: is_error_response_iff)
  moreover obtain m et where "extract_error_message response_text = error_result m et"
    by (rule extract_error_message_shape)
  ultimately show ?thesis
    by (simp add: parse_response_def error_result_def)
qed

theorem C10_error_indicator_gives_error_witness:
  \<open>py ''Failed'' \<in> set error_indicators \<and>
   sublist (py ''Failed'')
     (py ''{"status":"success","chart_type":"bar","data":[{"name":"Failed","v":1}]}'') \<and>
   (\<exists>d. parse_response ascii_db init
          (py ''{"status":"success","chart_type":"bar","data":[{"name":"Failed","v":1}]}'')
          = Some d \<and>
        map_of d (py ''status'') = Some (PStr (py ''error'')) \<and>
        map_of d (py ''chart_data'') = Some PNone)\<close>
proof -
  have h1: "py ''Failed'' \<in> set error_indicators"
    by (simp add: error_indicators_def)
  have h2: \<open>sublist (py ''Failed'')
     (py ''{"status":"success","chart_type":"bar","data":[{"name":"Failed","v":1}]}'')\<close>
    unfolding contains_iff_sublist [symmetric] by simp
  from C10_error_indicator_gives_error [OF h1 h2] h1 h2 show ?thesis by blast
qed

text \<open>
  A run of each method in a world returns the value of the function above at the
  parser object of that world, and leaves the parser object as it was.
\<close>

lemma attribute_run [simp]:
  "fst (run_state (attribute f) w) = f (parser_object w)"
  "snd (run_state (attribute f) w) = w"
  by (simp_all add: attribute_def)

lemma logger_call_run [simp]:
  "parser_object (snd (run_state (logger_call l message) w)) = parser_object w"
  "logger_calls (snd (run_state (logger_call l message) w)) = logger_calls w @ [(l, message)]"
  by (simp_all add: logger_call_def)

lemma run_state_bind_beta:
  "run_state (State_Monad.bind m f) w = run_state (f (fst (run_state m w))) (snd (run_state m w))"
  by (simp add: case_prod_beta)

lemma complete_records_loop_run:
  "fst (run_state (complete_records_loop complete_records matches) w) =
     complete_records @ filter (\<lambda>record_text. json_loads record_text \<noteq> None) matches \<and>
   parser_object (snd (run_state (complete_records_loop complete_records matches) w)) = parser_object w"
  by (induction matches arbitrary: complete_records w)
     (auto simp: run_state_bind_beta simp del: run_state_bind split: option.split)

lemma clean_truncated_response_m_run:
  "fst (run_state (clean_truncated_response_m U t) w) = clean_truncated_response U t \<and>
   parser_object (snd (run_state (clean_truncated_response_m U t) w)) = parser_object w"
  by (simp add: clean_truncated_response_m_def clean_truncated_response_def Let_def
      run_state_bind_beta complete_records_loop_run del: run_state_bind split: option.split)

lemma enhance_chart_data_m_run:
  "fst (run_state (enhance_chart_data_m d) w) = enhance_chart_data d \<and>
   parser_object (snd (run_state (enhance_chart_data_m d) w)) = parser_object w"
  by (simp add: enhance_chart_data_m_def run_state_bind_beta del: run_state_bind split: sum.split)

lemma extract_chart_metadata_m_run:
  "fst (run_state (extract_chart_metadata_m U t) w) = extract_chart_metadata U (parser_object w) t \<and>
   parser_object (snd (run_state (extract_chart_metadata_m U t) w)) = parser_object w"
  by (simp add: extract_chart_metadata_m_def extract_chart_metadata_def Let_def
      run_state_bind_beta del: run_state_bind split: option.split)

lemma extract_fields_manually_m_run:
  "fst (run_state (extract_fields_manually_m U t) w) = extract_fields_manually U (parser_object w) t \<and>
   snd (run_state (extract_fields_manually_m U t) w) = w"
  by (simp add: extract_fields_manually_m_def extract_fields_manually_def Let_def
      run_state_bind_beta del: run_state_bind)

lemma records_loop_m_run:
  "fst (run_state (records_loop_m U chart_type parsed_records record_matches) w) =
     records_loop U (parser_object w) chart_type parsed_records record_matches \<and>
   snd (run_state (records_loop_m U chart_type parsed_records record_matches) w) = w"
  by (induction record_matches arbitrary: parsed_records)
     (simp_all add: run_state_bind_beta extract_fields_manually_m_run del: run_state_bind
        split: option.split)

lemma extract_data_records_m_run:
  "fst (run_state (extract_data_records_m U t chart_type) w) =
     extract_data_records U (parser_object w) t chart_type \<and>
   snd (run_state (extract_data_records_m U t chart_type) w) = w"
  by (simp add: extract_data_records_m_def extract_data_records_def run_state_bind_beta
      records_loop_m_run del: run_state_bind split: option.split)

lemma direct_parse_m_run:
  "fst (run_state (direct_parse_m U t) w) = direct_parse U t \<and>
   parser_object (snd (run_state (direct_parse_m U t) w)) = parser_object w"
  by (simp add: direct_parse_m_def direct_parse_def Let_def run_state_bind_beta
      clean_truncated_response_m_run enhance_chart_data_m_run del: run_state_bind
      split: option.split pyval.split)

lemma pattern_extraction_m_run:
  "fst (run_state (pattern_extraction_m U t) w) = pattern_extraction U (parser_object w) t \<and>
   parser_object (snd (run_state (pattern_extraction_m U t) w)) = parser_object w"
  by (simp add: pattern_extraction_m_def pattern_extraction_def Let_def run_state_bind_beta
      extract_chart_metadata_m_run extract_data_records_m_run del: run_state_bind
      split: option.split sum.split)

lemma caught_m_run:
  "fst (run_state (caught_m r) w) = caught r \<and>
   parser_object (snd (run_state (caught_m r) w)) = parser_object w"
  by (simp add: caught_m_def caught_def run_state_bind_beta del: run_state_bind
      split: option.split sum.split)

lemma parse_response_m_run:
  "fst (run_state (parse_response_m U t) w) = parse_response U (parser_object w) t \<and>
   parser_object (snd (run_state (parse_response_m U t) w)) = parser_object w"
  by (simp add: parse_response_m_def parse_response_def run_state_bind_beta
      direct_parse_m_run pattern_extraction_m_run caught_m_run del: run_state_bind
      split: option.split)

text \<open>
  C9: the value a call of \<open>parse_response\<close> returns is a function of the text and the
  attributes of the parser object, whatever has been logged before; the call leaves the
  attributes as they were; so a second call on the same text, in the world the first
  call has left, returns the same value as the first.
\<close>

theorem C9_parse_response_deterministic:
  "fst (run_state (parse_response_m U response_text) w) =
     parse_response U (parser_object w) response_text \<and>
   parser_object (snd (run_state (parse_response_m U response_text) w)) = parser_object w \<and>
   fst (run_state (parse_response_m U response_text)
          (snd (run_state (parse_response_m U response_text) w))) =
     fst (run_state (parse_response_m U response_text) w)"
  by (simp add: parse_response_m_run)

text \<open>
  The world does change in a call: on the truncated response with the chart type
  \<open>heatmap\<close> three calls of the logger are made.
\<close>

lemma parse_response_m_unsupported_truncated:
  "run_state (parse_response_m U unsupported_truncated)
     \<lparr>parser_object = init, logger_calls = calls\<rparr> =
   (None,
    \<lparr>parser_object = init,
     logger_calls = calls @
       [(INFO, [Literal (py (''Standard JSON parsing failed even after cleaning, '' @
                             ''attempting pattern extraction''))]),
        (WARNING, [Literal (py ''Unsupported chart type: ''), Field (PStr (py ''heatmap''))]),
        (WARNING, [Literal (py ''Could not extract chart metadata from response'')])]\<rparr>)"
  by (simp add: unsupported_truncated_def parse_response_m_def direct_parse_m_def
      clean_truncated_response_m_def extract_chart_metadata_m_def pattern_extraction_m_def
      caught_m_def attribute_def logger_call_def is_error_response_def error_indicators_def
      strip_def is_space_def json_loads_def skip_ws_def json_ws_def is_digit_def
      match_number_def int_of_digits_def scan_once.simps parse_array_unfold parse_object_unfold
      Let_def init_def spaces_def Plus_def group1_def)

lemma missing_cols_iff:
  "filter (\<lambda>col. col \<notin> set columns) candlestick_cols = [] \<longleftrightarrow>
   set candlestick_cols \<subseteq> set columns"
  by (auto simp: filter_empty_conv)

subsection \<open>Strings\<close>

lemma split_first:
  "split s sep = p # ps \<Longrightarrow>
   p = (case str_find s sep of None \<Rightarrow> s | Some i \<Rightarrow> if sep = [] then s else take i s)"
  by (subst (asm) split.simps) (auto split: option.splits if_splits)

lemma split_not_Nil: "split s sep \<noteq> []"
  by (subst split.simps) (auto split: option.splits)

lemma sublist_strip: "sublist x (strip s) \<Longrightarrow> sublist x s"
proof -
  have a: "sublist (dropWhile P t) t" for P and t :: pystr
    by (metis sublist_append_leftI takeWhile_dropWhile_id)
  have "sublist (rev (dropWhile is_space (rev (dropWhile is_space s)))) (dropWhile is_space s)"
    by (metis a rev_rev_ident sublist_rev)
  then have "sublist (strip s) s"
    unfolding strip_def using a sublist_order.order_trans by blast
  then show "sublist x (strip s) \<Longrightarrow> sublist x s"
    using sublist_order.order_trans by blast
qed

lemma sublist_take: "sublist x (take n s) \<Longrightarrow> sublist x s"
  by (metis append_take_drop_id sublist_append_rightI sublist_order.order_trans)

lemma str_find_None: "str_find s sub = None \<longleftrightarrow> \<not> sublist sub s"
  by (induction s) (auto simp: startswith_iff_prefix sublist_Cons_right)

lemma str_find_first: "str_find s sub = Some i \<Longrightarrow> sub \<noteq> [] \<Longrightarrow> \<not> sublist sub (take i s)"
proof (induction s arbitrary: i)
  case Nil
  then show ?case by (simp split: if_splits)
next
  case (Cons c cs)
  show ?case
  proof (cases "startswith (c # cs) sub")
    case True
    with Cons.prems show ?thesis by simp
  next
    case False
    with Cons.prems obtain j where j: "str_find cs sub = Some j" and i: "i = Suc j"
      by auto
    from Cons.IH [OF j Cons.prems(2)] have "\<not> sublist sub (take j cs)" .
    moreover from False have "\<not> prefix sub (c # take j cs)"
      by (metis append_take_drop_id prefix_order.order_trans prefixI append_Cons
          startswith_iff_prefix)
    ultimately show ?thesis using i by (simp add: sublist_Cons_right)
  qed
qed

lemma dropWhile_last:
  assumes "dropWhile P xs \<noteq> []"
  shows "last (dropWhile P xs) = last xs"
  using assms by (induction xs) (auto split: if_splits)

lemma strip_strip: "strip (strip s) = strip s"
proof -
  define xs where "xs = dropWhile is_space s"
  define ys where "ys = dropWhile is_space (rev xs)"
  have s: "strip s = rev ys" by (simp add: strip_def xs_def ys_def)
  have "dropWhile is_space (rev ys) = rev ys"
  proof (cases "ys = []")
    case True
    then show ?thesis by simp
  next
    case False
    then have "last ys = last (rev xs)" unfolding ys_def by (rule dropWhile_last)
    moreover from False have "xs \<noteq> []" by (auto simp: ys_def)
    ultimately have "last ys = hd xs" by (simp add: last_rev)
    moreover from \<open>xs \<noteq> []\<close> have "\<not> is_space (hd xs)"
      unfolding xs_def by (rule hd_dropWhile)
    ultimately have "\<not> is_space (hd (rev ys))" using False by (simp add: hd_rev)
    with False show ?thesis by (cases "rev ys") auto
  qed
  then have "strip (rev ys) = rev (dropWhile is_space ys)"
    by (simp add: strip_def)
  also have "dropWhile is_space ys = ys"
    unfolding ys_def by (rule dropWhile_idem)
  finally show ?thesis using s by simp
qed

lemma replace_absent: "\<not> sublist old s \<Longrightarrow> replace s old new = s"
  by (subst replace.simps) (simp add: str_find_None [THEN iffD2])

subsection \<open>Error messages\<close>

lemma split_hd:
  "split s sep = (case str_find s sep of None \<Rightarrow> s | Some i \<Rightarrow> if sep = [] then s else take i s)
                 # tl (split s sep)"
  using split_first [of s sep] split_not_Nil [of s sep] by (cases "split s sep") auto

lemma sqlstate_block_str:
  "sqlstate_block (PStr s) =
     Inr (let part0 = (case str_find s (py ''SQLSTATE'') of None \<Rightarrow> s | Some i \<Rightarrow> take i s);
              main_error = strip (replace (strip part0) (py ''[TABLE_OR_VIEW_NOT_FOUND]'') [])
          in if main_error \<noteq> [] then Some main_error else None)"
  unfolding sqlstate_block_def bind_exc_def py_split.simps sum.case
  by (subst split_hd) (simp add: Let_def split: option.split)

lemma other_errors_str:
  "other_errors (PStr s) =
     Inr (if contains (py ''cannot be found'') s then msg_source_not_found
          else if contains (py ''Failed to'') s \<or> contains (py ''Error:'') s
          then (case str_find s [10] of None \<Rightarrow> s | Some i \<Rightarrow> take i s)
          else (let clean_msg = strip s;
                    clean_msg = (if length clean_msg > 200 then take 200 clean_msg @ py ''...''
                                 else clean_msg)
                in if clean_msg \<noteq> [] then clean_msg else msg_default))"
  unfolding other_errors_def bind_exc_def py_split.simps sum.case
  by (subst split_hd) (simp add: Let_def split: option.split)

lemma clean_error_message_str:
  "clean_error_message (PStr s) =
     (if contains (py ''TABLE_OR_VIEW_NOT_FOUND'') s
      then Inr (if contains (py ''TCS_stock'') s then msg_tcs_not_found else msg_table_not_found)
      else
        (case (if contains (py ''SQLSTATE'') s then sqlstate_block (PStr s) else Inr None) of
           Inl e \<Rightarrow> Inl e
         | Inr (Some main_error) \<Rightarrow> Inr main_error
         | Inr None \<Rightarrow> other_errors (PStr s)))"
  unfolding clean_error_message_def bind_exc_def
  by (simp split: option.split sum.split)

lemma sublist_disjoint_append:
  assumes "sublist x (c @ d)" and "set x \<inter> set d = {}" and "x \<noteq> []"
  shows "sublist x c"
proof -
  from assms(1) consider "sublist x c" | "sublist x d"
    | x1 x2 where "x = x1 @ x2" "suffix x1 c" "prefix x2 d"
    unfolding sublist_append by blast
  then show ?thesis
  proof cases
    case 1
    then show ?thesis .
  next
    case 2
    then have "set x \<subseteq> set d" by (rule set_mono_sublist)
    with assms(2,3) show ?thesis by (cases x) auto
  next
    case 3
    from 3(3) have "set x2 \<subseteq> set d" by (rule set_mono_prefix)
    with assms(2) 3(1) have "x2 = []" by (cases x2) auto
    with 3 show ?thesis by (simp add: suffix_imp_sublist)
  qed
qed

lemma fixed_messages:
  "length msg_tcs_not_found \<le> 203" "length msg_table_not_found \<le> 203"
  "length msg_source_not_found \<le> 203" "length msg_default \<le> 203"
  "\<not> sublist (py ''SQLSTATE'') msg_tcs_not_found"
  "\<not> sublist (py ''SQLSTATE'') msg_table_not_found"
  "\<not> sublist (py ''SQLSTATE'') msg_source_not_found"
  "\<not> sublist (py ''SQLSTATE'') msg_default"
  by (simp_all add: msg_tcs_not_found_def msg_table_not_found_def msg_source_not_found_def
      msg_default_def contains_iff_sublist [symmetric])

lemma default_cleanup:
  assumes "\<not> sublist (py ''SQLSTATE'') s"
  defines "c \<equiv> (if length (strip s) > 200 then take 200 (strip s) @ py ''...'' else strip s)"
  shows "length c \<le> 203" and "\<not> sublist (py ''SQLSTATE'') c"
proof -
  show "length c \<le> 203" by (simp add: c_def)
  from assms(1) have st: "\<not> sublist (py ''SQLSTATE'') (strip s)"
    using sublist_strip by blast
  then have tk: "\<not> sublist (py ''SQLSTATE'') (take 200 (strip s))"
    using sublist_take by blast
  have "\<not> sublist (py ''SQLSTATE'') (take 200 (strip s) @ py ''...'')"
  proof
    assume "sublist (py ''SQLSTATE'') (take 200 (strip s) @ py ''...'')"
    then have "sublist (py ''SQLSTATE'') (take 200 (strip s))"
      by (rule sublist_disjoint_append) simp_all
    with tk show False ..
  qed
  with st show "\<not> sublist (py ''SQLSTATE'') c" by (simp add: c_def)
qed

text \<open>
  C8, as the code has it: on a string, \<open>_clean_error_message\<close> always returns a message.
  The message is at most 203 characters long and free of \<open>SQLSTATE\<close> when the text
  contains \<open>TABLE_OR_VIEW_NOT_FOUND\<close>, or contains no \<open>SQLSTATE\<close> and either contains
  \<open>cannot be found\<close> or neither \<open>Failed to\<close> nor \<open>Error:\<close>.  When the text has no table
  marker and something other than white space before its first \<open>SQLSTATE\<close>, the message
  is that part, trimmed: free of \<open>SQLSTATE\<close>, of any length.
\<close>

theorem C8_clean_error_message_bounds:
  "\<exists>message. clean_error_message (PStr error_text) = Inr message \<and>
     (sublist (py ''TABLE_OR_VIEW_NOT_FOUND'') error_text \<or>
      \<not> sublist (py ''SQLSTATE'') error_text \<and>
        (sublist (py ''cannot be found'') error_text \<or>
         \<not> sublist (py ''Failed to'') error_text \<and> \<not> sublist (py ''Error:'') error_text)
      \<longrightarrow> length message \<le> 203 \<and> \<not> sublist (py ''SQLSTATE'') message) \<and>
     (\<forall>i. \<not> sublist (py ''TABLE_OR_VIEW_NOT_FOUND'') error_text \<and>
          str_find error_text (py ''SQLSTATE'') = Some i \<and> strip (take i error_text) \<noteq> []
          \<longrightarrow> message = strip (take i error_text) \<and> \<not> sublist (py ''SQLSTATE'') message)"
proof (cases "sublist (py ''TABLE_OR_VIEW_NOT_FOUND'') error_text")
  case True
  then have "clean_error_message (PStr error_text) =
      Inr (if contains (py ''TCS_stock'') error_text then msg_tcs_not_found
           else msg_table_not_found)"
    by (simp add: clean_error_message_str contains_iff_sublist)
  with True fixed_messages show ?thesis by auto
next
  case noT: False
  show ?thesis
  proof (cases "sublist (py ''SQLSTATE'') error_text")
    case noS: False
    then have nf: "str_find error_text (py ''SQLSTATE'') = None"
      by (simp only: str_find_None not_False_eq_True)
    from noT noS have cl: "clean_error_message (PStr error_text) = other_errors (PStr error_text)"
      by (simp add: clean_error_message_str contains_iff_sublist)
    show ?thesis
    proof (cases "sublist (py ''cannot be found'') error_text")
      case True
      then have "clean_error_message (PStr error_text) = Inr msg_source_not_found"
        unfolding cl other_errors_str by (simp add: contains_iff_sublist)
      with nf fixed_messages show ?thesis by auto
    next
      case noC: False
      show ?thesis
      proof (cases "sublist (py ''Failed to'') error_text \<or> sublist (py ''Error:'') error_text")
        case True
        with noC have "\<exists>m. clean_error_message (PStr error_text) = Inr m"
          unfolding cl other_errors_str by (simp add: contains_iff_sublist)
        with nf noT noC True show ?thesis by auto
      next
        case False
        define c where "c = (if length (strip error_text) > 200
                             then take 200 (strip error_text) @ py ''...''
                             else strip error_text)"
        from noC False have m: "clean_error_message (PStr error_text) =
            Inr (if c \<noteq> [] then c else msg_default)"
          unfolding cl other_errors_str c_def by (simp add: contains_iff_sublist Let_def)
        from default_cleanup [OF noS] have "length c \<le> 203" "\<not> sublist (py ''SQLSTATE'') c"
          unfolding c_def by simp_all
        with m nf fixed_messages show ?thesis by auto
      qed
    qed
  next
    case S: True
    then obtain i where i: "str_find error_text (py ''SQLSTATE'') = Some i"
      using str_find_None [of error_text "py ''SQLSTATE''"] by auto
    have ne: "py ''SQLSTATE'' \<noteq> []" by simp
    from str_find_first [OF i ne] have before: "\<not> sublist (py ''SQLSTATE'') (take i error_text)" .
    have "\<not> sublist (py ''[TABLE_OR_VIEW_NOT_FOUND]'') (strip (take i error_text))"
    proof
      assume "sublist (py ''[TABLE_OR_VIEW_NOT_FOUND]'') (strip (take i error_text))"
      then have "sublist (py ''[TABLE_OR_VIEW_NOT_FOUND]'') error_text"
        using sublist_strip sublist_take by blast
      moreover have "sublist (py ''TABLE_OR_VIEW_NOT_FOUND'') (py ''[TABLE_OR_VIEW_NOT_FOUND]'')"
        unfolding contains_iff_sublist [symmetric] by simp
      ultimately show False using noT sublist_order.order_trans by blast
    qed
    then have rp: "replace (strip (take i error_text)) (py ''[TABLE_OR_VIEW_NOT_FOUND]'') []
        = strip (take i error_text)"
      by (rule replace_absent)
    have blk: "sqlstate_block (PStr error_text) =
        Inr (if strip (take i error_text) \<noteq> [] then Some (strip (take i error_text)) else None)"
      unfolding sqlstate_block_str i option.case Let_def rp strip_strip ..
    show ?thesis
    proof (cases "strip (take i error_text) = []")
      case True
      with noT S blk have "clean_error_message (PStr error_text) = other_errors (PStr error_text)"
        by (simp add: clean_error_message_str contains_iff_sublist)
      then have "\<exists>m. clean_error_message (PStr error_text) = Inr m"
        unfolding other_errors_str by simp
      with noT S i True show ?thesis by auto
    next
      case False
      with noT S blk have "clean_error_message (PStr error_text) = Inr (strip (take i error_text))"
        by (simp add: clean_error_message_str contains_iff_sublist)
      moreover from before have "\<not> sublist (py ''SQLSTATE'') (strip (take i error_text))"
        using sublist_strip by blast
      ultimately show ?thesis using noT S i by auto
    qed
  qed
qed

lemma clean_error_message_other:
  assumes "clean_error_message v = Inr m" and "\<forall>s. v \<noteq> PStr s"
  shows "m \<in> {msg_tcs_not_found, msg_table_not_found, msg_source_not_found}"
proof (cases v)
  case (PList xs)
  with assms(1) show ?thesis
    by (auto simp: clean_error_message_def sqlstate_block_def other_errors_def bind_exc_def
        split: if_splits)
next
  case (PDict d)
  with assms(1) show ?thesis
    by (auto simp: clean_error_message_def sqlstate_block_def other_errors_def bind_exc_def
        split: if_splits)
qed (use assms in \<open>auto simp: clean_error_message_def bind_exc_def\<close>)

lemma parser_failure_message:
  "\<not> sublist (py ''SQLSTATE'') (py ''Failed to parse error response'')"
  unfolding contains_iff_sublist [symmetric] by simp

lemma cleaned_result_table:
  assumes "\<forall>s. v = PStr s \<longrightarrow> sublist (py ''TABLE_OR_VIEW_NOT_FOUND'') s"
  obtains message et where "cleaned_result v error_type = error_result message et"
    and "\<not> sublist (py ''SQLSTATE'') message"
proof (cases "clean_error_message v")
  case (Inl e)
  then have "cleaned_result v error_type =
      error_result (py ''Failed to parse error response'') (py ''parser'')"
    by (simp add: cleaned_result_def)
  then show ?thesis using parser_failure_message by (rule that)
next
  case (Inr m)
  then have c: "cleaned_result v error_type = error_result m error_type"
    by (simp add: cleaned_result_def)
  have "\<not> sublist (py ''SQLSTATE'') m"
  proof (cases "\<exists>s. v = PStr s")
    case True
    then obtain s where s: "v = PStr s" by blast
    with assms have "sublist (py ''TABLE_OR_VIEW_NOT_FOUND'') s" by blast
    with Inr s have "m = (if contains (py ''TCS_stock'') s then msg_tcs_not_found
                         else msg_table_not_found)"
      by (simp add: clean_error_message_str contains_iff_sublist)
    with fixed_messages show ?thesis by auto
  next
    case False
    with Inr have "m \<in> {msg_tcs_not_found, msg_table_not_found, msg_source_not_found}"
      by (auto dest: clean_error_message_other)
    with fixed_messages show ?thesis by auto
  qed
  with c show ?thesis by (rule that)
qed

text \<open>
  C2, as the code has it: a text that contains \<open>TABLE_OR_VIEW_NOT_FOUND\<close> is answered
  with a result of status \<open>error\<close>, whatever else it contains; the message is free of
  \<open>SQLSTATE\<close> unless the text is a JSON object whose member \<open>error\<close> is a string without
  the table marker.
\<close>

theorem C2_error_precedence:
  assumes "sublist (py ''TABLE_OR_VIEW_NOT_FOUND'') response_text"
  shows "\<exists>message error_type.
           parse_response U self response_text = Some (error_result message error_type) \<and>
           ((\<forall>parsed s. json_loads response_text = Some (PDict parsed) \<and>
                        map_of parsed (py ''error'') = Some (PStr s)
                        \<longrightarrow> sublist (py ''TABLE_OR_VIEW_NOT_FOUND'') s)
            \<longrightarrow> \<not> sublist (py ''SQLSTATE'') message)"
proof -
  have "py ''TABLE_OR_VIEW_NOT_FOUND'' \<in> set error_indicators"
    by (simp add: error_indicators_def)
  with assms have "is_error_response response_text"
    by (auto simp: is_error_response_iff)
  then have pr: "parse_response U self response_text = Some (extract_error_message response_text)"
    by (simp add: parse_response_def)
  show ?thesis
  proof (cases "\<forall>parsed s. json_loads response_text = Some (PDict parsed) \<and>
                        map_of parsed (py ''error'') = Some (PStr s)
                        \<longrightarrow> sublist (py ''TABLE_OR_VIEW_NOT_FOUND'') s")
    case False
    obtain m et where "extract_error_message response_text = error_result m et"
      by (rule extract_error_message_shape)
    with pr False show ?thesis by auto
  next
    case True
    have general: "\<forall>s. PStr response_text = PStr s \<longrightarrow> sublist (py ''TABLE_OR_VIEW_NOT_FOUND'') s"
      using assms by simp
    obtain gm get where g: "cleaned_result (PStr response_text) (py ''general'') = error_result gm get"
      and gs: "\<not> sublist (py ''SQLSTATE'') gm"
      using general by (rule cleaned_result_table)
    have "\<exists>m et. extract_error_message response_text = error_result m et \<and>
                  \<not> sublist (py ''SQLSTATE'') m"
    proof (cases "json_loads response_text")
      case None
      with g gs show ?thesis by (auto simp: extract_error_message_def)
    next
      case (Some v)
      show ?thesis
      proof (cases "\<exists>parsed. v = PDict parsed \<and> dict_has parsed (py ''error'') \<and>
                        startswith (strip response_text) [123]")
        case False
        with Some g gs show ?thesis
          by (cases v) (auto simp: extract_error_message_def)
      next
        case d: True
        then obtain parsed where v: "v = PDict parsed" and h: "dict_has parsed (py ''error'')"
          and st: "startswith (strip response_text) [123]" by blast
        from h obtain e where e: "map_of parsed (py ''error'') = Some e"
          by (auto simp: dict_has_def)
        with True Some v have "\<forall>s. e = PStr s \<longrightarrow> sublist (py ''TABLE_OR_VIEW_NOT_FOUND'') s"
          by blast
        then obtain m et where "cleaned_result e (py ''database'') = error_result m et"
          and "\<not> sublist (py ''SQLSTATE'') m"
          by (rule cleaned_result_table)
        with Some v h st e show ?thesis
          by (auto simp: extract_error_message_def dict_get_def)
      qed
    qed
    with pr show ?thesis by auto
  qed
qed

subsection \<open>Pattern-based extraction\<close>

lemma parse_response_fallback:
  assumes "\<not> is_error_response t" and "direct_parse U t = None"
  shows "parse_response U self t = caught (pattern_extraction U self t)"
  using assms by (simp add: parse_response_def)

text \<open>
  C5, as the code has it: the chart type is validated by the pattern-based extraction
  only.  When the text is not error-shaped and the direct parse does not return it, a
  declared chart type outside the five supported ones gives \<open>None\<close>.
\<close>

theorem C5_unsupported_chart_type_rejected:
  assumes "\<not> is_error_response response_text"
    and "direct_parse U response_text = None"
    and "re_search U (chart_type_pattern (chart_patterns init)) response_text
           = Some (m, groups, rest)"
    and "group1 groups \<notin> set (map py [''candlestick'', ''scatter'', ''line'', ''bar'', ''pie''])"
  shows "parse_response U init response_text = None"
proof -
  have "supported_chart_types init = map py [''candlestick'', ''scatter'', ''line'', ''bar'', ''pie'']"
    by (simp add: init_def)
  with assms(3,4) have "extract_chart_metadata U init response_text = None"
    by (simp add: extract_chart_metadata_def)
  then show ?thesis
    using assms(1,2) by (simp add: parse_response_fallback pattern_extraction_def caught_def)
qed

lemma records_loop_invalid:
  assumes "\<forall>record_text\<in>set record_matches.
             json_loads record_text = None \<and> extract_fields_manually U self record_text = None"
  shows "records_loop U self chart_type parsed_records record_matches = parsed_records"
  using assms by (induction record_matches arbitrary: parsed_records) auto

text \<open>
  C6, as the code has it: when the text is not error-shaped, the direct parse does not
  return it, and every balanced-brace fragment after the start of the data array fails
  both \<open>json.loads\<close> and the manual extraction, the result is \<open>None\<close>.
\<close>

theorem C6_no_valid_record_no_result:
  assumes "\<not> is_error_response response_text"
    and "direct_parse U response_text = None"
    and "re_search U (data_array_start (chart_patterns self)) response_text
           = Some (m, groups, data_section)"
    and "\<forall>record_text\<in>set (map fst (re_findall U (record_pattern (chart_patterns self))
                                         data_section)).
           json_loads record_text = None \<and> extract_fields_manually U self record_text = None"
  shows "parse_response U self response_text = None"
proof -
  from assms(3,4) have "extract_data_records U self response_text chart_type = []"
    for chart_type
    by (simp add: extract_data_records_def records_loop_invalid)
  then show ?thesis
    using assms(1,2)
    by (simp add: parse_response_fallback pattern_extraction_def caught_def split: option.split)
qed

lemma records_loop_valid:
  assumes "r \<in> set (records_loop U self chart_type parsed_records record_matches)"
  shows "r \<in> set parsed_records \<or> validate_record r chart_type"
  using assms
proof (induction record_matches arbitrary: parsed_records)
  case Nil
  then show ?case by simp
next
  case (Cons record_text record_matches)
  show ?case
  proof (cases "json_loads record_text")
    case (Some rcd)
    with Cons.prems Cons.IH [of "if validate_record rcd chart_type
        then parsed_records @ [rcd] else parsed_records"]
    show ?thesis by (auto split: if_splits)
  next
    case None
    show ?thesis
    proof (cases "extract_fields_manually U self record_text")
      case n: None
      with None Cons show ?thesis by auto
    next
      case (Some rcd)
      with None Cons.prems Cons.IH [of "if rcd \<noteq> [] \<and> validate_record (PDict rcd) chart_type
          then parsed_records @ [PDict rcd] else parsed_records"]
      show ?thesis by (auto split: if_splits)
    qed
  qed
qed

lemma extract_data_records_valid:
  "r \<in> set (extract_data_records U self text chart_type) \<Longrightarrow> validate_record r chart_type"
  by (auto simp: extract_data_records_def split: option.splits dest: records_loop_valid)

lemma validate_recordD:
  assumes "validate_record r chart_type"
  obtains kv where "r = PDict kv" and "\<forall>k\<in>set (get_required_fields chart_type). dict_has kv k"
  using assms by (cases r) (auto simp: validate_record_def list_all_iff)

lemma detect_x_column_Date:
  assumes "dict_has kv (py ''Date'')"
  shows "detect_x_column (PList (PDict kv # rest)) = Inr (py ''Date'')"
  using assms by (simp add: detect_x_column_def x_candidates_def bind_exc_def)

lemma detect_y_columns_dict:
  "detect_y_columns (PList (PDict kv # rest)) chart_type =
     Inr (let numeric_fields =
                map fst (filter (\<lambda>(k, v). is_number v \<and> k \<notin> set (map py [''Date'', ''date'']))
                                kv)
          in if chart_type = PStr (py ''candlestick'')
             then map py [''Open'', ''High'', ''Low'', ''Close'']
             else if chart_type = PStr (py ''scatter'')
             then (if length numeric_fields \<ge> 2 then take 2 numeric_fields
                   else numeric_fields)
             else if chart_type \<in> set (map PStr (map py [''line'', ''bar'']))
             then (if numeric_fields \<noteq> [] then take 1 numeric_fields else [])
             else numeric_fields)"
  unfolding detect_y_columns_def bind_exc_def by (simp add: Let_def)

lemma detect_y_columns_keys:
  assumes "detect_y_columns (PList (PDict kv # rest)) (PStr chart_type) = Inr ys"
    and "chart_type \<noteq> py ''candlestick''"
  shows "set ys \<subseteq> fst ` set kv"
proof -
  define nf where
    "nf = map fst (filter (\<lambda>(k, v). is_number v \<and> k \<notin> set (map py [''Date'', ''date''])) kv)"
  have nf: "set nf \<subseteq> fst ` set kv" unfolding nf_def by auto
  have tk: "set (take n nf) \<subseteq> fst ` set kv" for n
    using nf set_take_subset [of n nf] by blast
  from assms(2) have nc: "PStr chart_type \<noteq> PStr (py ''candlestick'')" by simp
  from assms(1) [unfolded detect_y_columns_dict, folded nf_def]
  have "ys = (if PStr chart_type = PStr (py ''scatter'')
             then (if length nf \<ge> 2 then take 2 nf else nf)
             else if PStr chart_type \<in> set (map PStr (map py [''line'', ''bar'']))
             then (if nf \<noteq> [] then take 1 nf else [])
             else nf)"
    unfolding Let_def if_not_P [OF nc] by simp
  then consider "ys = nf" | "ys = take 2 nf" | "ys = take 1 nf" | "ys = []"
    by (metis (full_types))
  then show ?thesis using nf tk by cases auto
qed

lemma detect_y_columns_candlestick:
  "detect_y_columns (PList (PDict kv # rest)) (PStr (py ''candlestick'')) = Inr ys
   \<Longrightarrow> ys = map py [''Open'', ''High'', ''Low'', ''Close'']"
  unfolding detect_y_columns_dict Let_def by simp

lemma dict_has_iff: "dict_has kv k \<longleftrightarrow> k \<in> fst ` set kv"
  by (simp add: dict_has_def map_of_eq_None_iff)

lemma pattern_extraction_Some:
  assumes "caught (pattern_extraction U self t) = Some result"
  obtains chart_type x ys where
    "extract_chart_metadata U self t = Some chart_type"
    "extract_data_records U self t chart_type \<noteq> []"
    "detect_x_column (PList (extract_data_records U self t chart_type)) = Inr x"
    "detect_y_columns (PList (extract_data_records U self t chart_type)) (PStr chart_type) = Inr ys"
    "result = [(py ''status'', PStr (py ''success'')), (py ''chart_type'', PStr chart_type),
               (py ''data'', PList (extract_data_records U self t chart_type)),
               (py ''x'', PStr x), (py ''y'', PList (map PStr ys))]"
proof (cases "extract_chart_metadata U self t")
  case None
  with assms show ?thesis by (simp add: pattern_extraction_def caught_def)
next
  case (Some chart_type)
  let ?recs = "extract_data_records U self t chart_type"
  show ?thesis
  proof (cases "?recs = []")
    case True
    with Some assms show ?thesis by (simp add: pattern_extraction_def caught_def)
  next
    case ne: False
    show ?thesis
    proof (cases "detect_x_column (PList ?recs)")
      case (Inl e)
      with Some ne assms show ?thesis
        by (simp add: pattern_extraction_def caught_def bind_exc_def)
    next
      case x: (Inr x)
      show ?thesis
      proof (cases "detect_y_columns (PList ?recs) (PStr chart_type)")
        case (Inl e)
        with Some ne x assms show ?thesis
          by (simp add: pattern_extraction_def caught_def bind_exc_def)
      next
        case y: (Inr ys)
        with Some ne x assms have "result =
            [(py ''status'', PStr (py ''success'')), (py ''chart_type'', PStr chart_type),
             (py ''data'', PList ?recs), (py ''x'', PStr x), (py ''y'', PList (map PStr ys))]"
          by (simp add: pattern_extraction_def caught_def bind_exc_def)
        with Some ne x y show ?thesis by (rule that)
      qed
    qed
  qed
qed

text \<open>
  C3, as the code has it: a value built by the pattern-based extraction has a non-empty
  list of records; the columns named by \<open>y\<close> are keys of the first record; for the chart
  types \<open>candlestick\<close>, \<open>scatter\<close> and \<open>line\<close> every record has the column named by \<open>x\<close>;
  for \<open>candlestick\<close> every record has all the columns named by \<open>y\<close>.
\<close>

theorem C3_pattern_extraction_invariant:
  assumes "\<not> is_error_response response_text"
    and "direct_parse U response_text = None"
    and "parse_response U init response_text = Some result"
  shows "\<exists>chart_type first rest x ys.
           result = [(py ''status'', PStr (py ''success'')), (py ''chart_type'', PStr chart_type),
                     (py ''data'', PList (PDict first # rest)), (py ''x'', PStr x),
                     (py ''y'', PList (map PStr ys))] \<and>
           (\<forall>y\<in>set ys. dict_has first y) \<and>
           (chart_type \<in> set (map py [''candlestick'', ''scatter'', ''line'']) \<longrightarrow>
              (\<forall>r\<in>set (PDict first # rest). \<exists>kv. r = PDict kv \<and> dict_has kv x)) \<and>
           (chart_type = py ''candlestick'' \<longrightarrow>
              (\<forall>r\<in>set (PDict first # rest). \<exists>kv. r = PDict kv \<and> (\<forall>y\<in>set ys. dict_has kv y)))"
proof -
  from assms have "caught (pattern_extraction U init response_text) = Some result"
    by (simp add: parse_response_fallback)
  then obtain chart_type x ys where
    ne: "extract_data_records U init response_text chart_type \<noteq> []"
    and x: "detect_x_column (PList (extract_data_records U init response_text chart_type)) = Inr x"
    and ys: "detect_y_columns (PList (extract_data_records U init response_text chart_type))
               (PStr chart_type) = Inr ys"
    and res: "result = [(py ''status'', PStr (py ''success'')), (py ''chart_type'', PStr chart_type),
               (py ''data'', PList (extract_data_records U init response_text chart_type)),
               (py ''x'', PStr x), (py ''y'', PList (map PStr ys))]"
    by (rule pattern_extraction_Some)
  define recs where "recs = extract_data_records U init response_text chart_type"
  note ne = ne [folded recs_def] and x = x [folded recs_def] and ys = ys [folded recs_def]
    and res = res [folded recs_def]
  have valid: "validate_record r chart_type" if "r \<in> set recs" for r
    using that unfolding recs_def by (rule extract_data_records_valid)
  have all_req: "\<exists>kv. r = PDict kv \<and> (\<forall>k\<in>set (get_required_fields chart_type). dict_has kv k)"
    if "r \<in> set recs" for r
    using valid [OF that] by (rule validate_recordD) blast
  from ne obtain r0 rest where recs: "recs = r0 # rest" by (cases recs) auto
  with all_req [of r0] obtain first where r0: "r0 = PDict first"
    and req0: "\<forall>k\<in>set (get_required_fields chart_type). dict_has first k"
    by auto
  note x = x [unfolded recs r0] and ys = ys [unfolded recs r0]
  have ys_first: "\<forall>y\<in>set ys. dict_has first y"
  proof (cases "chart_type = py ''candlestick''")
    case True
    from ys [unfolded True] have "ys = map py [''Open'', ''High'', ''Low'', ''Close'']"
      by (rule detect_y_columns_candlestick)
    with req0 True show ?thesis by (simp add: get_required_fields_def)
  next
    case False
    from detect_y_columns_keys [OF ys False] show ?thesis
      by (auto simp: dict_has_iff)
  qed
  have x_all: "\<forall>r\<in>set recs. \<exists>kv. r = PDict kv \<and> dict_has kv x"
    if dated: "chart_type \<in> set (map py [''candlestick'', ''scatter'', ''line''])"
  proof -
    from dated have d: "py ''Date'' \<in> set (get_required_fields chart_type)"
      by (auto simp: get_required_fields_def)
    with req0 have "dict_has first (py ''Date'')" by blast
    from detect_x_column_Date [OF this, of rest] x have "x = py ''Date''" by simp
    with d all_req show ?thesis by blast
  qed
  have y_all: "\<forall>r\<in>set recs. \<exists>kv. r = PDict kv \<and> (\<forall>y\<in>set ys. dict_has kv y)"
    if cs: "chart_type = py ''candlestick''"
  proof -
    from ys [unfolded cs] have "ys = map py [''Open'', ''High'', ''Low'', ''Close'']"
      by (rule detect_y_columns_candlestick)
    moreover from cs have "set (map py [''Open'', ''High'', ''Low'', ''Close''])
        \<subseteq> set (get_required_fields chart_type)"
      by (simp add: get_required_fields_def)
    ultimately show ?thesis using all_req by blast
  qed
  from res [unfolded recs r0] ys_first x_all [unfolded recs r0] y_all [unfolded recs r0]
  show ?thesis by blast
qed

subsection \<open>Column resolution\<close>

text \<open>
  C4, as the code has it: with a declared \<open>y\<close> of four or more entries, column
  resolution forces \<open>y\<close> to \<open>Close\<close> and fails unless \<open>Open\<close>, \<open>High\<close>, \<open>Low\<close> and \<open>Close\<close>
  are keys of the first record, the only record whose keys it reads; it also fails when
  no \<open>x\<close> is declared and the first key is the empty string.
\<close>

theorem C4_candlestick_first_record:
  assumes "map_of chart_data (py ''data'') = Some (PList (first # rest))"
    and "map_of chart_data (py ''y'') = Some (PList ys)"
    and "4 \<le> length ys"
  shows "process_chart_data (PDict chart_data) =
     (case columns_of first of
        [] \<Rightarrow> None
      | c0 # _ \<Rightarrow>
          (let x = dict_get chart_data (py ''x'') (PStr []);
               x_col = (if truthy x then x else PStr c0)
           in if set candlestick_cols \<subseteq> set (columns_of first) \<and> truthy x_col
              then Some [(py ''data'', PList (first # rest)), (py ''x_col'', x_col),
                         (py ''y_col'', PStr (py ''Close'')),
                         (py ''columns'', PList (map PStr (columns_of first)))]
              else None))"
proof (cases "columns_of first")
  case Nil
  with assms show ?thesis
    by (simp add: process_chart_data_def locate_data_def dict_has_def at_def dict_get_def
        bind_exc_def resolve_columns_def missing_cols_iff candlestick_cols_def)
next
  case (Cons c0 cs)
  with assms show ?thesis
    by (cases cs)
      (simp_all add: process_chart_data_def locate_data_def dict_has_def at_def dict_get_def
        bind_exc_def resolve_columns_def missing_cols_iff Let_def)
qed

theorem C4_candlestick_first_record_witness:
  "map_of [(py ''data'', PList [PDict [(py ''Date'', PStr (py ''2016-05-31'')),
                                         (py ''Open'', PInt 1), (py ''High'', PInt 2),
                                         (py ''Close'', PInt 1)]]),
           (py ''y'', PList (map PStr candlestick_cols))] (py ''data'') =
     Some (PList [PDict [(py ''Date'', PStr (py ''2016-05-31'')), (py ''Open'', PInt 1),
                         (py ''High'', PInt 2), (py ''Close'', PInt 1)]]) \<and>
   4 \<le> length (map PStr candlestick_cols) \<and>
   process_chart_data
     (PDict [(py ''data'', PList [PDict [(py ''Date'', PStr (py ''2016-05-31'')),
                                         (py ''Open'', PInt 1), (py ''High'', PInt 2),
                                         (py ''Close'', PInt 1)]]),
             (py ''y'', PList (map PStr candlestick_cols))]) = None"
proof -
  let ?first = "PDict [(py ''Date'', PStr (py ''2016-05-31'')), (py ''Open'', PInt 1),
                       (py ''High'', PInt 2), (py ''Close'', PInt 1)]"
  let ?d = "[(py ''data'', PList [?first]), (py ''y'', PList (map PStr candlestick_cols))]"
  have h1: "map_of ?d (py ''data'') = Some (PList (?first # []))" by simp
  have h2: "map_of ?d (py ''y'') = Some (PList (map PStr candlestick_cols))" by simp
  have h3: "4 \<le> length (map PStr candlestick_cols)" by (simp add: candlestick_cols_def)
  from C4_candlestick_first_record [OF h1 h2 h3] h1 h3 show ?thesis
    by (simp add: columns_of_def candlestick_cols_def dict_get_def)
qed

text \<open>
  The claim speaks of every record: here the second record has no \<open>Low\<close> and the
  resolution succeeds.
\<close>

theorem C4_every_record_counterexample:
  "process_chart_data
     (PDict [(py ''data'',
                PList [PDict [(py ''Date'', PStr (py ''2016-05-31'')), (py ''Open'', PInt 1),
                              (py ''High'', PInt 2), (py ''Low'', PInt 1), (py ''Close'', PInt 2)],
                       PDict [(py ''Date'', PStr (py ''2016-05-30'')), (py ''Open'', PInt 1),
                              (py ''High'', PInt 2), (py ''Close'', PInt 2)]]),
             (py ''x'', PStr (py ''Date'')),
             (py ''y'', PList (map PStr candlestick_cols))])
   = Some [(py ''data'',
              PList [PDict [(py ''Date'', PStr (py ''2016-05-31'')), (py ''Open'', PInt 1),
                            (py ''High'', PInt 2), (py ''Low'', PInt 1), (py ''Close'', PInt 2)],
                     PDict [(py ''Date'', PStr (py ''2016-05-30'')), (py ''Open'', PInt 1),
                            (py ''High'', PInt 2), (py ''Close'', PInt 2)]]),
           (py ''x_col'', PStr (py ''Date'')),
           (py ''y_col'', PStr (py ''Close'')),
           (py ''columns'', PList (map PStr (map py [''Date'', ''Open'', ''High'', ''Low'', ''Close''])))] \<and>
   py ''Low'' \<notin> set (columns_of (PDict [(py ''Date'', PStr (py ''2016-05-30'')), (py ''Open'', PInt 1),
                              (py ''High'', PInt 2), (py ''Close'', PInt 2)]))"
  by (simp add: process_chart_data_def locate_data_def dict_has_def at_def dict_get_def
        bind_exc_def resolve_columns_def candlestick_cols_def columns_of_def Let_def)

subsection \<open>The sample responses, evaluated\<close>

text \<open>The equations that evaluate the functions of the model on a given text.\<close>

lemmas eval_defs =
  is_error_response_def error_indicators_def strip_def is_space_def json_loads_def skip_ws_def
  json_ws_def is_digit_def match_number_def int_of_digits_def decode_escape_def hexval_def
  init_def spaces_def balanced_braces_def Plus_def group1_def local_record_pattern_def
  after_data_pattern_def clean_truncated_response_def extract_chart_metadata_def
  get_required_fields_def validate_record_def extract_fields_manually_def
  extract_data_records_def x_candidates_def detect_x_column_def detect_y_columns_def
  detect_chart_type_from_data_def parser_info_def at_def dict_has_def dict_get_def
  enhance_chart_data_def direct_parse_def pattern_extraction_def caught_def parse_response_def
  bind_exc_def error_result_def cleaned_result_def extract_error_message_def
  clean_error_message_def sqlstate_block_def other_errors_def msg_tcs_not_found_def
  msg_table_not_found_def msg_source_not_found_def msg_default_def Let_def
  scan_once.simps parse_array_unfold parse_object_unfold split.simps replace.simps
  re_findall.simps ascii_db_def

lemmas json_defs =
  json_loads_def skip_ws_def json_ws_def is_digit_def match_number_def int_of_digits_def
  scan_once.simps parse_array_unfold parse_object_unfold Let_def

lemmas broken_defs =
  unquoted_key_record_def missing_colon_record_def broken_section_def broken_records_def

subsubsection \<open>The truncated response of the specification\<close>

lemma tr_not_error: "\<not> is_error_response truncated_response"
  by (simp add: truncated_response_def is_error_response_def error_indicators_def)

lemma tr_clean: "clean_truncated_response U truncated_response = truncated_response"
  by (simp add: truncated_response_def clean_truncated_response_def strip_def is_space_def)

lemma tr_json: "json_loads truncated_response = None"
  by (simp add: truncated_response_def json_defs)

lemma tr_direct: "direct_parse U truncated_response = None"
  unfolding direct_parse_def Let_def tr_clean by (simp add: tr_json)

lemma tr_metadata: "extract_chart_metadata U init truncated_response = Some (py ''scatter'')"
  by (simp add: truncated_response_def extract_chart_metadata_def init_def spaces_def Plus_def
      group1_def is_space_def)

lemma tr_records:
  "extract_data_records U init truncated_response (py ''scatter'') = three_records"
  by (simp add: truncated_response_def three_records_def extract_data_records_def init_def
      spaces_def balanced_braces_def is_space_def re_findall.simps json_defs
      validate_record_def get_required_fields_def dict_has_def)

lemma tr_x: "detect_x_column (PList three_records) = Inr (py ''Date'')"
  by (simp add: three_records_def detect_x_column_def x_candidates_def bind_exc_def dict_has_def)

lemma tr_y:
  "detect_y_columns (PList three_records) (PStr (py ''scatter'')) = Inr [py ''Open'', py ''Close'']"
  by (simp add: three_records_def detect_y_columns_def bind_exc_def Let_def)

lemma tr_pattern:
  "pattern_extraction U init truncated_response =
     Some (Inr [(py ''status'', PStr (py ''success'')), (py ''chart_type'', PStr (py ''scatter'')),
                (py ''data'', PList three_records), (py ''x'', PStr (py ''Date'')),
                (py ''y'', PList [PStr (py ''Open''), PStr (py ''Close'')])])"
  unfolding pattern_extraction_def tr_metadata option.case Let_def tr_records tr_x tr_y
  by (simp add: bind_exc_def three_records_def)

text \<open>
  C1: on the truncated response of the specification, \<open>parse_response\<close> returns status
  \<open>success\<close>, chart type \<open>scatter\<close>, the three complete records, \<open>x = "Date"\<close> and
  \<open>y = ["Open", "Close"]\<close>.  The direct parse fails on the missing brackets; the value is
  built by the pattern-based extraction.
\<close>

theorem C1_truncation_tolerance:
  "parse_response U init truncated_response =
     Some [(py ''status'', PStr (py ''success'')), (py ''chart_type'', PStr (py ''scatter'')),
           (py ''data'', PList three_records), (py ''x'', PStr (py ''Date'')),
           (py ''y'', PList [PStr (py ''Open''), PStr (py ''Close'')])]"
  by (simp add: parse_response_def tr_not_error tr_direct tr_pattern caught_def)

subsubsection \<open>Columns of a success value\<close>

text \<open>
  C3 as the specification states it fails on a value of the direct parse, which keeps
  the declared columns \<open>month\<close> and \<open>sales\<close> that the record does not have; and on a value
  of the pattern-based extraction for a \<open>bar\<close> chart, where \<open>x\<close> and \<open>y\<close> are read off the
  first record and the second record has neither.
\<close>

theorem C3_declared_columns_counterexample:
  "parse_response ascii_db init mismatched_columns =
     Some [(py ''status'', PStr (py ''success'')), (py ''chart_type'', PStr (py ''bar'')),
           (py ''data'', PList [PDict [(py ''a'', PInt 1)]]), (py ''x'', PStr (py ''month'')),
           (py ''y'', PStr (py ''sales'')), (py ''data_count'', PInt 1),
           (py ''data_complete'', PBool True), (py ''parser_info'', parser_info)] \<and>
   \<not> dict_has [(py ''a'', PInt 1)] (py ''month'') \<and>
   \<not> dict_has [(py ''a'', PInt 1)] (py ''sales'') \<and>
   parse_response ascii_db init truncated_bar =
     Some [(py ''status'', PStr (py ''success'')), (py ''chart_type'', PStr (py ''bar'')),
           (py ''data'', PList [PDict [(py ''a'', PInt 1)], PDict [(py ''b'', PInt 2)]]),
           (py ''x'', PStr (py ''a'')), (py ''y'', PList [PStr (py ''a'')])] \<and>
   \<not> dict_has [(py ''b'', PInt 2)] (py ''a'')"
  by (simp add: mismatched_columns_def truncated_bar_def eval_defs)

text \<open>The truncated response of the specification meets the hypotheses of C3.\<close>

theorem C3_pattern_extraction_invariant_witness:
  "\<not> is_error_response truncated_response \<and>
   direct_parse ascii_db truncated_response = None \<and>
   parse_response ascii_db init truncated_response =
     Some [(py ''status'', PStr (py ''success'')), (py ''chart_type'', PStr (py ''scatter'')),
           (py ''data'', PList three_records), (py ''x'', PStr (py ''Date'')),
           (py ''y'', PList [PStr (py ''Open''), PStr (py ''Close'')])] \<and>
   (\<exists>chart_type first rest x ys.
      [(py ''status'', PStr (py ''success'')), (py ''chart_type'', PStr (py ''scatter'')),
       (py ''data'', PList three_records), (py ''x'', PStr (py ''Date'')),
       (py ''y'', PList [PStr (py ''Open''), PStr (py ''Close'')])] =
      [(py ''status'', PStr (py ''success'')), (py ''chart_type'', PStr chart_type),
       (py ''data'', PList (PDict first # rest)), (py ''x'', PStr x),
       (py ''y'', PList (map PStr ys))] \<and>
      (\<forall>y\<in>set ys. dict_has first y) \<and>
      (chart_type \<in> set (map py [''candlestick'', ''scatter'', ''line'']) \<longrightarrow>
         (\<forall>r\<in>set (PDict first # rest). \<exists>kv. r = PDict kv \<and> dict_has kv x)) \<and>
      (chart_type = py ''candlestick'' \<longrightarrow>
         (\<forall>r\<in>set (PDict first # rest). \<exists>kv. r = PDict kv \<and> (\<forall>y\<in>set ys. dict_has kv y))))"
proof -
  have h3: "parse_response ascii_db init truncated_response =
     Some [(py ''status'', PStr (py ''success'')), (py ''chart_type'', PStr (py ''scatter'')),
           (py ''data'', PList three_records), (py ''x'', PStr (py ''Date'')),
           (py ''y'', PList [PStr (py ''Open''), PStr (py ''Close'')])]"
    by (simp add: parse_response_def tr_not_error tr_direct tr_pattern caught_def)
  from C3_pattern_extraction_invariant [OF tr_not_error tr_direct h3] tr_not_error tr_direct h3
  show ?thesis by blast
qed

subsubsection \<open>Unsupported chart types\<close>

text \<open>
  C5 as the specification states it fails on a well-formed response: the direct parse
  returns it with its chart type \<open>heatmap\<close>, which is not a supported one.
\<close>

theorem C5_direct_parse_counterexample:
  "parse_response ascii_db init unsupported_success =
     Some [(py ''status'', PStr (py ''success'')), (py ''chart_type'', PStr (py ''heatmap'')),
           (py ''data'', PList [PDict [(py ''a'', PInt 1)]]), (py ''x'', PStr (py ''a'')),
           (py ''y'', PList [PStr (py ''a'')]), (py ''data_count'', PInt 1),
           (py ''data_complete'', PBool True), (py ''parser_info'', parser_info)] \<and>
   py ''heatmap'' \<notin> set (supported_chart_types init)"
  by (simp add: unsupported_success_def eval_defs)

lemma ut_not_error: "\<not> is_error_response unsupported_truncated"
  by (simp add: unsupported_truncated_def is_error_response_def error_indicators_def)

lemma ut_direct: "direct_parse U unsupported_truncated = None"
  by (simp add: unsupported_truncated_def eval_defs)

lemma ut_chart_type:
  \<open>re_search U (chart_type_pattern (chart_patterns init)) unsupported_truncated =
     Some (py ''"chart_type":"heatmap"'', [py ''heatmap''], py '',"data":[{"a":1},{"a":'')\<close>
  by (simp add: unsupported_truncated_def init_def spaces_def Plus_def is_space_def)

text \<open>The same response, truncated, meets the hypotheses of C5.\<close>

theorem C5_unsupported_chart_type_rejected_witness:
  \<open>\<not> is_error_response unsupported_truncated \<and>
   direct_parse ascii_db unsupported_truncated = None \<and>
   re_search ascii_db (chart_type_pattern (chart_patterns init)) unsupported_truncated =
     Some (py ''"chart_type":"heatmap"'', [py ''heatmap''], py '',"data":[{"a":1},{"a":'') \<and>
   group1 [py ''heatmap'']
     \<notin> set (map py [''candlestick'', ''scatter'', ''line'', ''bar'', ''pie'']) \<and>
   parse_response ascii_db init unsupported_truncated = None\<close>
proof -
  have h4: "group1 [py ''heatmap'']
      \<notin> set (map py [''candlestick'', ''scatter'', ''line'', ''bar'', ''pie''])"
    by (simp add: group1_def)
  from C5_unsupported_chart_type_rejected [OF ut_not_error ut_direct ut_chart_type h4]
    ut_not_error ut_direct ut_chart_type h4
  show ?thesis by blast
qed

subsubsection \<open>Responses without a valid record\<close>

lemma ed_not_error: "\<not> is_error_response empty_data"
  by (simp add: empty_data_def is_error_response_def error_indicators_def)

lemma ed_strip: "strip empty_data = empty_data"
  by (simp add: empty_data_def strip_def is_space_def)

lemma ed_find: \<open>str_find empty_data (py ''"data": ['') = Some 22\<close>
  by (simp add: empty_data_def)

lemma ed_local: "re_findall U local_record_pattern (drop 22 empty_data) = []"
  by (simp add: empty_data_def local_record_pattern_def balanced_braces_def re_findall.simps)

lemma ed_clean: "clean_truncated_response U empty_data = empty_data"
  unfolding clean_truncated_response_def Let_def ed_strip ed_find option.case ed_local
  by simp

lemma ed_json:
  "json_loads empty_data =
     Some (PDict [(py ''status'', PStr (py ''success'')), (py ''data'', PList [])])"
  by (simp add: empty_data_def json_defs)

lemma ed_enhance:
  "enhance_chart_data [(py ''status'', PStr (py ''success'')), (py ''data'', PList [])] =
     Inr [(py ''status'', PStr (py ''success'')), (py ''data'', PList []),
          (py ''chart_type'', PStr (py ''line'')), (py ''data_count'', PInt 0),
          (py ''data_complete'', PBool True), (py ''parser_info'', parser_info)]"
  by (simp add: enhance_chart_data_def detect_chart_type_from_data_def at_def dict_has_def
      dict_get_def bind_exc_def Let_def)

lemma ed_direct:
  "direct_parse U empty_data =
     Some (Inr [(py ''status'', PStr (py ''success'')), (py ''data'', PList []),
          (py ''chart_type'', PStr (py ''line'')), (py ''data_count'', PInt 0),
          (py ''data_complete'', PBool True), (py ''parser_info'', parser_info)])"
proof -
  have s: "startswith empty_data [123]"
    by (simp add: empty_data_def)
  have g: "dict_get [(py ''status'', PStr (py ''success'')), (py ''data'', PList [])]
             (py ''status'') PNone = PStr (py ''success'')"
    by (simp add: dict_get_def)
  show ?thesis
    unfolding direct_parse_def Let_def ed_clean ed_strip ed_json option.case pyval.case
      g ed_enhance
    using s by simp
qed

lemma ed_search:
  \<open>re_search U (data_array_start (chart_patterns init)) empty_data =
     Some (py ''"data": ['', [], py '']}'')\<close>
  by (simp add: empty_data_def init_def spaces_def is_space_def)

lemma ed_findall: "re_findall U (record_pattern (chart_patterns init)) (py '']}'') = []"
  by (simp add: init_def balanced_braces_def re_findall.simps)

lemma qf_facts:
  "\<not> is_error_response quoted_fragment"
  \<open>re_search U (data_array_start (chart_patterns init)) quoted_fragment =
     Some (py ''"data":['', [], py ''"{x}"]}'')\<close>
  \<open>map fst (re_findall U (record_pattern (chart_patterns init)) (py ''"{x}"]}'')) = [py ''{x}'']\<close>
  "json_loads (py ''{x}'') = None"
  "extract_fields_manually ascii_db init (py ''{x}'') = None"
  by (simp_all add: quoted_fragment_def eval_defs)

lemma qf_parse:
  \<open>parse_response ascii_db init quoted_fragment =
     Some [(py ''status'', PStr (py ''success'')), (py ''chart_type'', PStr (py ''bar'')),
           (py ''x'', PStr (py ''a'')), (py ''y'', PStr (py ''b'')),
           (py ''data'', PList [PStr (py ''{x}'')]), (py ''data_count'', PInt 1),
           (py ''data_complete'', PBool True), (py ''parser_info'', parser_info)]\<close>
  by (simp add: quoted_fragment_def eval_defs)

text \<open>
  C6 as the specification states it fails on well-formed responses, which the direct
  parse returns without looking for records: one with an empty data array, where there
  is no fragment at all and the value has an empty data list, and one whose only
  balanced-brace fragment \<open>{x}\<close> lies inside a string.
\<close>

theorem C6_direct_parse_counterexample:
  \<open>\<not> is_error_response empty_data \<and>
   re_search ascii_db (data_array_start (chart_patterns init)) empty_data =
     Some (py ''"data": ['', [], py '']}'') \<and>
   re_findall ascii_db (record_pattern (chart_patterns init)) (py '']}'') = [] \<and>
   parse_response ascii_db init empty_data =
     Some [(py ''status'', PStr (py ''success'')), (py ''data'', PList []),
           (py ''chart_type'', PStr (py ''line'')), (py ''data_count'', PInt 0),
           (py ''data_complete'', PBool True), (py ''parser_info'', parser_info)] \<and>
   \<not> is_error_response quoted_fragment \<and>
   re_search ascii_db (data_array_start (chart_patterns init)) quoted_fragment =
     Some (py ''"data":['', [], py ''"{x}"]}'') \<and>
   map fst (re_findall ascii_db (record_pattern (chart_patterns init)) (py ''"{x}"]}'')) =
     [py ''{x}''] \<and>
   json_loads (py ''{x}'') = None \<and>
   extract_fields_manually ascii_db init (py ''{x}'') = None \<and>
   parse_response ascii_db init quoted_fragment =
     Some [(py ''status'', PStr (py ''success'')), (py ''chart_type'', PStr (py ''bar'')),
           (py ''x'', PStr (py ''a'')), (py ''y'', PStr (py ''b'')),
           (py ''data'', PList [PStr (py ''{x}'')]), (py ''data_count'', PInt 1),
           (py ''data_complete'', PBool True), (py ''parser_info'', parser_info)]\<close>
proof -
  have p: "parse_response ascii_db init empty_data =
     Some [(py ''status'', PStr (py ''success'')), (py ''data'', PList []),
           (py ''chart_type'', PStr (py ''line'')), (py ''data_count'', PInt 0),
           (py ''data_complete'', PBool True), (py ''parser_info'', parser_info)]"
    by (simp add: parse_response_def ed_not_error ed_direct caught_def)
  from ed_not_error ed_search ed_findall p qf_facts qf_parse show ?thesis
    by blast
qed

lemma br_not_error: "\<not> is_error_response broken_records"
  by (simp add: broken_defs is_error_response_def error_indicators_def)

lemma br_strip: "strip broken_records = broken_records"
  by (simp add: broken_defs strip_def is_space_def)

lemma br_find: \<open>str_find broken_records (py ''"data": ['') = Some 43\<close>
  by (simp add: broken_defs)

lemma br_local:
  "re_findall U local_record_pattern (drop 43 broken_records) =
     [(unquoted_key_record, []), (missing_colon_record, [])]"
  by (simp add: broken_defs local_record_pattern_def balanced_braces_def re_findall.simps)

lemma unquoted_key_json: "json_loads unquoted_key_record = None"
  by (simp add: broken_defs json_defs)

lemma missing_colon_json: "json_loads missing_colon_record = None"
  by (simp add: broken_defs json_defs)

lemma br_clean: "clean_truncated_response U broken_records = broken_records"
  unfolding clean_truncated_response_def Let_def br_strip br_find option.case br_local
  by (simp add: unquoted_key_json missing_colon_json)

lemma br_json: "json_loads broken_records = None"
  by (simp add: broken_defs json_defs)

lemma br_direct: "direct_parse U broken_records = None"
  unfolding direct_parse_def Let_def br_clean br_json by simp

lemma br_search:
  \<open>re_search U (data_array_start (chart_patterns init)) broken_records =
     Some (py ''"data": ['', [], broken_section)\<close>
  by (simp add: broken_defs init_def spaces_def is_space_def)

lemma br_findall:
  "re_findall U (record_pattern (chart_patterns init)) broken_section =
     [(unquoted_key_record, []), (missing_colon_record, [])]"
  by (simp add: broken_defs init_def balanced_braces_def re_findall.simps)

lemma unquoted_key_manual: "extract_fields_manually ascii_db init unquoted_key_record = None"
  by (simp add: broken_defs eval_defs)

lemma missing_colon_manual: "extract_fields_manually ascii_db init missing_colon_record = None"
  by (simp add: broken_defs eval_defs)

text \<open>
  A response with two malformed records, one with an unquoted key and one without its
  colon, meets the hypotheses of C6.
\<close>

theorem C6_no_valid_record_no_result_witness:
  \<open>\<not> is_error_response broken_records \<and>
   direct_parse ascii_db broken_records = None \<and>
   re_search ascii_db (data_array_start (chart_patterns init)) broken_records =
     Some (py ''"data": ['', [], broken_section) \<and>
   map fst (re_findall ascii_db (record_pattern (chart_patterns init)) broken_section) =
     [unquoted_key_record, missing_colon_record] \<and>
   json_loads unquoted_key_record = None \<and>
   extract_fields_manually ascii_db init unquoted_key_record = None \<and>
   json_loads missing_colon_record = None \<and>
   extract_fields_manually ascii_db init missing_colon_record = None \<and>
   parse_response ascii_db init broken_records = None\<close>
proof -
  have m: "map fst (re_findall ascii_db (record_pattern (chart_patterns init)) broken_section) =
     [unquoted_key_record, missing_colon_record]"
    unfolding br_findall by simp
  have h4: "\<forall>record_text\<in>set (map fst (re_findall ascii_db (record_pattern (chart_patterns init))
                broken_section)).
              json_loads record_text = None \<and>
              extract_fields_manually ascii_db init record_text = None"
    unfolding m
    using unquoted_key_json missing_colon_json unquoted_key_manual missing_colon_manual
    by simp
  from C6_no_valid_record_no_result [OF br_not_error br_direct br_search h4]
    br_not_error br_direct br_search m
    unquoted_key_json missing_colon_json unquoted_key_manual missing_colon_manual
  show ?thesis by blast
qed

subsubsection \<open>Error messages\<close>

text \<open>
  C8 as the specification states it fails on a text that starts with \<open>SQLSTATE\<close> and
  contains \<open>Failed to\<close>: nothing stands before the state code, the first line is returned
  as it is, 235 characters long and with the state code.
\<close>

theorem C8_first_line_counterexample:
  "clean_error_message (PStr long_failure) = Inr long_failure \<and>
   203 < length long_failure \<and> contains (py ''SQLSTATE'') long_failure"
  by (simp add: long_failure_def eval_defs)

lemma tet_table: "sublist (py ''TABLE_OR_VIEW_NOT_FOUND'') table_error_text"
  unfolding contains_iff_sublist [symmetric] by (simp add: table_error_text_def)

lemma cet_facts:
  "\<not> sublist (py ''TABLE_OR_VIEW_NOT_FOUND'') column_error_text"
  "str_find column_error_text (py ''SQLSTATE'') = Some 35"
  "strip (take 35 column_error_text) = py ''Column revenue cannot be resolved.''"
  unfolding contains_iff_sublist [symmetric]
  by (simp_all add: column_error_text_def strip_def is_space_def)

text \<open>
  A text with the table marker and a text with a message before its state code meet
  the two hypotheses of C8.
\<close>

theorem C8_clean_error_message_bounds_witness:
  "sublist (py ''TABLE_OR_VIEW_NOT_FOUND'') table_error_text \<and>
   (\<exists>message. clean_error_message (PStr table_error_text) = Inr message \<and>
      length message \<le> 203 \<and> \<not> sublist (py ''SQLSTATE'') message) \<and>
   \<not> sublist (py ''TABLE_OR_VIEW_NOT_FOUND'') column_error_text \<and>
   str_find column_error_text (py ''SQLSTATE'') = Some 35 \<and>
   strip (take 35 column_error_text) \<noteq> [] \<and>
   (\<exists>message. clean_error_message (PStr column_error_text) = Inr message \<and>
      message = py ''Column revenue cannot be resolved.'' \<and>
      \<not> sublist (py ''SQLSTATE'') message)"
proof -
  have ne: "strip (take 35 column_error_text) \<noteq> []"
    unfolding cet_facts(3) by simp
  from C8_clean_error_message_bounds [of table_error_text] tet_table
  have a: "\<exists>message. clean_error_message (PStr table_error_text) = Inr message \<and>
      length message \<le> 203 \<and> \<not> sublist (py ''SQLSTATE'') message"
    by blast
  from C8_clean_error_message_bounds [of column_error_text] cet_facts(1,2) ne
  have "\<exists>message. clean_error_message (PStr column_error_text) = Inr message \<and>
      message = strip (take 35 column_error_text) \<and> \<not> sublist (py ''SQLSTATE'') message"
    by blast
  then have b: "\<exists>message. clean_error_message (PStr column_error_text) = Inr message \<and>
      message = py ''Column revenue cannot be resolved.'' \<and>
      \<not> sublist (py ''SQLSTATE'') message"
    unfolding cet_facts(3) .
  from a b tet_table cet_facts(1,2) ne show ?thesis by blast
qed

text \<open>
  C2 as the specification states it fails on a JSON object whose member \<open>error\<close> is a
  state code alone, with the table marker in a nested \<open>error\<close> member: the message is the
  member \<open>error\<close> of the object, state code included.
\<close>

theorem C2_top_level_error_counterexample:
  \<open>contains (py ''"error": "[TABLE_OR_VIEW_NOT_FOUND] Table not found. SQLSTATE 42P01"'')
     nested_table_error \<and>
   parse_response ascii_db init nested_table_error =
     Some (error_result (py ''SQLSTATE 42P01'') (py ''database'')) \<and>
   contains (py ''SQLSTATE'') (py ''SQLSTATE 42P01'')\<close>
  by (simp add: nested_table_error_def eval_defs)

lemma ewd_table: "sublist (py ''TABLE_OR_VIEW_NOT_FOUND'') error_with_data"
  unfolding contains_iff_sublist [symmetric]
  by (simp add: error_with_data_def table_error_text_def)

lemma ewd_data: \<open>sublist (py ''"data": ['') error_with_data\<close>
  unfolding contains_iff_sublist [symmetric]
  by (simp add: error_with_data_def table_error_text_def)

lemma ewd_json:
  "json_loads error_with_data =
     Some (PDict [(py ''status'', PStr (py ''error'')), (py ''error'', PStr table_error_text),
                  (py ''data'', PList [])])"
  by (simp add: error_with_data_def table_error_text_def json_defs decode_escape_def hexval_def)

text \<open>
  An error response that also has a data array, with the table marker in its member
  \<open>error\<close>, meets the hypotheses of C2.
\<close>

theorem C2_error_precedence_witness:
  \<open>sublist (py ''TABLE_OR_VIEW_NOT_FOUND'') error_with_data \<and>
   sublist (py ''"data": ['') error_with_data \<and>
   json_loads error_with_data =
     Some (PDict [(py ''status'', PStr (py ''error'')), (py ''error'', PStr table_error_text),
                  (py ''data'', PList [])]) \<and>
   sublist (py ''TABLE_OR_VIEW_NOT_FOUND'') table_error_text \<and>
   (\<exists>message error_type.
      parse_response ascii_db init error_with_data = Some (error_result message error_type) \<and>
      \<not> sublist (py ''SQLSTATE'') message)\<close>
proof -
  have h2: "\<forall>parsed s. json_loads error_with_data = Some (PDict parsed) \<and>
              map_of parsed (py ''error'') = Some (PStr s)
              \<longrightarrow> sublist (py ''TABLE_OR_VIEW_NOT_FOUND'') s"
    using tet_table by (auto simp: ewd_json)
  from C2_error_precedence [OF ewd_table, of ascii_db init] h2
  have "\<exists>message error_type.
      parse_response ascii_db init error_with_data = Some (error_result message error_type) \<and>
      \<not> sublist (py ''SQLSTATE'') message"
    by blast
  with ewd_table ewd_data ewd_json tet_table show ?thesis by blast
qed

end
